theory Spec2Isabelle
  imports Main "HOL-Library.Word"
begin

unbundle bit_operations_syntax

section \<open>The TCP transport of libmodbus (src/modbus-tcp.c)\<close>

text \<open>
  Conventions of the embedding.
  \<^item> A C \<open>int\<close> is a HOL \<open>int\<close>; the values that occur (lengths, descriptors, unit
    ids) stay far inside the 32-bit range. \<open>uint8_t\<close> is \<open>8 word\<close>, \<open>uint16_t\<close> is
    \<open>16 word\<close>; an assignment of an \<open>int\<close> to a \<open>uint8_t\<close> is \<open>word_of_int\<close>.
    \<open>x >> 8\<close> on an \<open>int\<close> is \<open>drop_bit 8 x\<close> (arithmetic shift), \<open>x & 0xff\<close> is
    \<open>x AND 255\<close>.
  \<^item> A \<open>uint8_t *\<close> message buffer is the memory behind the pointer: a function from
    byte offsets to bytes, so that every write of the source is a write of the model,
    wherever it lands.
  \<^item> A function returns its C return value; \<open>errno\<close> is a field of the state it
    takes and returns.
  \<^item> A function that reaches nothing but the object behind its \<open>ctx\<close> argument takes
    that object and returns it; the functions for which it matters whether two
    pointers lead to the same object (the constructors, the clone, the request
    builder with its counter) work on a heap.
  \<^item> The leading underscore of the static functions is dropped
    (\<open>_modbus_set_slave\<close> is \<open>modbus_set_slave\<close>).
  \<^item> Output to stdout and stderr (the \<open>debug\<close> prints, \<open>_error_print\<close>) is not
    modelled.
\<close>

subsection \<open>Data\<close>

type_synonym byte = "8 word"
type_synonym buf = "nat \<Rightarrow> byte"

datatype errno_t =
    EINTR | ETIMEDOUT | EBADF | ECONNRESET | ECONNREFUSED | EINVAL | EINPROGRESS
  | EMBBADDATA
  | Errno_other int

datatype msg_type_t = MSG_INDICATION | MSG_CONFIRMATION

datatype step_t = STEP_FUNCTION | STEP_META | STEP_DATA

text \<open>The bits of \<open>ctx->error_recovery\<close>; the mask is the set of the bits that are on.\<close>

datatype error_recovery_bit = MODBUS_ERROR_RECOVERY_LINK | MODBUS_ERROR_RECOVERY_PROTOCOL

record timeval =
  tv_sec :: int
  tv_usec :: int

text \<open>
  The numeric members of \<open>modbus_backend_t\<close>. The function pointers of the two tables
  \<open>_modbus_tcp_backend\<close> and \<open>_modbus_tcp_pi_backend\<close> are the same functions except
  for \<open>connect\<close>; \<open>connect_pi\<close> tells which one the table holds.
\<close>

record modbus_backend_t =
  header_length :: nat
  checksum_length :: nat
  max_adu_length :: nat
  connect_pi :: bool

text \<open>
  \<open>modbus_t\<close>, with the members the source file uses. \<open>backend_data\<close> is the address
  of the transport parameter block. \<open>traceCallback\<close> tells whether the callback
  pointer is set.
\<close>

record modbus_t =
  slave :: int
  s :: int
  debug :: int
  error_recovery :: "error_recovery_bit set"
  response_timeout :: timeval
  byte_timeout :: timeval
  backend :: modbus_backend_t
  backend_data :: nat
  traceCallback :: bool

text \<open>
  What a system call sees and leaves behind. \<open>selects\<close> scripts the environment's
  answers to \<open>select\<close>, in call order: the return value and the \<open>errno\<close> it sets when
  that value is \<open>-1\<close>. \<open>inbound\<close> scripts the socket's input, in arrival order: a
  segment of bytes (the empty segment is the end of the stream) or a failure of
  \<open>recv\<close>. \<open>calls\<close> logs the calls issued, oldest first: \<open>select\<close> with
  its first and last argument, \<open>recv\<close> with the descriptor, the offset into the
  message buffer and the length asked for; \<open>Lib_call\<close> is there for the library
  functions that the examples instantiate.
\<close>

datatype arrival = Segment "byte list" | Recv_error errno_t

datatype call =
    Sys_select int "timeval option"
  | Sys_recv int nat int
  | Lib_call string

record world =
  errno :: errno_t
  selects :: "(int \<times> errno_t) list"
  inbound :: "arrival list"
  calls :: "call list"

subsection \<open>Unit id\<close>

text \<open>The source's comment gives the value of the macro: 0xFF.\<close>

definition MODBUS_TCP_SLAVE :: int where
  "MODBUS_TCP_SLAVE = 0xFF"

definition modbus_set_slave :: "modbus_t \<Rightarrow> int \<Rightarrow> world \<Rightarrow> int \<times> modbus_t \<times> world" where
  "modbus_set_slave ctx slave_arg w =
     (if slave_arg \<ge> 0 \<and> slave_arg \<le> 247 then (0, ctx\<lparr>slave := slave_arg\<rparr>, w)
      else if slave_arg = MODBUS_TCP_SLAVE then (0, ctx\<lparr>slave := slave_arg\<rparr>, w)
      else (-1, ctx, w\<lparr>errno := EINVAL\<rparr>))"

subsection \<open>Header fields\<close>

definition modbus_tcp_prepare_response_tid :: "buf \<Rightarrow> int" where
  "modbus_tcp_prepare_response_tid req = push_bit 8 (uint (req 0)) + uint (req 1)"

definition modbus_tcp_send_msg_pre :: "buf \<Rightarrow> int \<Rightarrow> int \<times> buf" where
  "modbus_tcp_send_msg_pre req req_length =
     (let mbap_length = req_length - 6;
          req = req(4 := word_of_int (drop_bit 8 mbap_length));
          req = req(5 := word_of_int (mbap_length AND 0x00FF))
      in (req_length, req))"

definition modbus_tcp_check_integrity :: "modbus_t \<Rightarrow> buf \<Rightarrow> int \<Rightarrow> int" where
  "modbus_tcp_check_integrity ctx msg msg_length = msg_length"

definition modbus_tcp_pre_check_confirmation ::
  "modbus_t \<Rightarrow> buf \<Rightarrow> buf \<Rightarrow> int \<Rightarrow> world \<Rightarrow> int \<times> world" where
  "modbus_tcp_pre_check_confirmation ctx req rsp rsp_length w =
     (if req 0 \<noteq> rsp 0 \<or> req 1 \<noteq> rsp 1 then (-1, w\<lparr>errno := EMBBADDATA\<rparr>)
      else (0, w))"

text \<open>The length field of a message, read back big-endian from bytes 4 and 5.\<close>

definition mbap_length_field :: "buf \<Rightarrow> int" where
  "mbap_length_field req = push_bit 8 (uint (req 4)) + uint (req 5)"

subsection \<open>What the file calls and does not define\<close>

text \<open>
  \<open>compute_meta_length_after_function\<close>, \<open>compute_data_length_after_meta\<close>,
  \<open>_sleep_response_timeout\<close>, \<open>modbus_flush\<close>, \<open>modbus_close\<close> and
  \<open>modbus_connect\<close> are defined in another file of the library, and the trace
  callback belongs to the application. The model takes them as parameters: the two
  length functions as functions of their arguments, the others as arbitrary
  transformers of the context and the world.
\<close>

record externals =
  compute_meta_length_after_function :: "int \<Rightarrow> msg_type_t \<Rightarrow> int"
  compute_data_length_after_meta :: "modbus_t \<Rightarrow> buf \<Rightarrow> msg_type_t \<Rightarrow> int"
  sleep_response_timeout :: "modbus_t \<times> world \<Rightarrow> modbus_t \<times> world"
  modbus_flush :: "modbus_t \<times> world \<Rightarrow> modbus_t \<times> world"
  modbus_close :: "modbus_t \<times> world \<Rightarrow> modbus_t \<times> world"
  modbus_connect :: "modbus_t \<times> world \<Rightarrow> modbus_t \<times> world"
  trace_callback :: "buf \<Rightarrow> int \<Rightarrow> modbus_t \<times> world \<Rightarrow> modbus_t \<times> world"

subsection \<open>Readiness wait and raw receive\<close>

text \<open>
  \<open>select\<close> takes the next scripted answer. With no answer left the call does not
  return: the result is \<open>None\<close>. The descriptor set is not modelled, and \<open>select\<close>
  is taken to leave the timeout it is given as it is.
\<close>

function modbus_tcp_select_s ::
  "modbus_t \<Rightarrow> timeval option \<Rightarrow> int \<Rightarrow> int \<Rightarrow> world \<Rightarrow> (int \<times> world) option" where
  "modbus_tcp_select_s ctx tv length_to_read s_arg w =
     (case selects w of
        [] \<Rightarrow> None
      | (s_rc, e) # rest \<Rightarrow>
          (let w = w\<lparr>selects := rest, calls := calls w @ [Sys_select (s_arg + 1) tv]\<rparr> in
           if s_rc = -1 then
             (let w = w\<lparr>errno := e\<rparr> in
              if e = EINTR then modbus_tcp_select_s ctx tv length_to_read s_arg w
              else Some (-1, w))
           else if s_rc = 0 then Some (-1, w\<lparr>errno := ETIMEDOUT\<rparr>)
           else Some (s_rc, w)))"
  by pat_completeness auto
termination
  by (relation "measure (\<lambda>(ctx, tv, length_to_read, s_arg, w). length (selects w))") auto

declare modbus_tcp_select_s.simps [simp del]

definition write_bytes :: "buf \<Rightarrow> nat \<Rightarrow> byte list \<Rightarrow> buf" where
  "write_bytes b off bs = (\<lambda>i. if off \<le> i \<and> i < off + length bs then bs ! (i - off) else b i)"

text \<open>
  \<open>recv(s, rsp + off, rsp_length, 0)\<close> on a stream socket: it delivers at most
  \<open>rsp_length\<close> bytes of the segment at the head of the input and leaves the rest of
  the segment for the next call; it returns 0 at the end of the stream; it returns -1
  and sets \<open>errno\<close> on a failure. With no input left the call does not return.
\<close>

definition recv :: "int \<Rightarrow> buf \<Rightarrow> nat \<Rightarrow> int \<Rightarrow> world \<Rightarrow> (int \<times> buf \<times> world) option" where
  "recv fd b off len w =
     (case inbound w of
        [] \<Rightarrow> None
      | Recv_error e # rest \<Rightarrow>
          Some (-1, b, w\<lparr>errno := e, inbound := rest, calls := calls w @ [Sys_recv fd off len]\<rparr>)
      | Segment bs # rest \<Rightarrow>
          (let n = min (length bs) (nat len);
               left = drop n bs
           in Some (int n, write_bytes b off (take n bs),
                    w\<lparr>inbound := (if left = [] then rest else Segment left # rest),
                      calls := calls w @ [Sys_recv fd off len]\<rparr>)))"

text \<open>\<open>rsp\<close> is the pointer \<open>msg + off\<close> of the caller.\<close>

definition modbus_tcp_recv_s ::
  "buf \<Rightarrow> nat \<Rightarrow> int \<Rightarrow> int \<Rightarrow> world \<Rightarrow> (int \<times> buf \<times> world) option" where
  "modbus_tcp_recv_s msg off rsp_length s_arg w = recv s_arg msg off rsp_length w"

subsection \<open>Message reassembly\<close>

text \<open>
  The recovery blocks of \<open>_modbus_tcp_receive_msg\<close>, after a failed \<open>select\<close> and
  after a failed \<open>recv\<close>.
\<close>

definition select_failed :: "externals \<Rightarrow> modbus_t \<times> world \<Rightarrow> modbus_t \<times> world" where
  "select_failed E cw =
     (let (ctx, w) = cw in
      if MODBUS_ERROR_RECOVERY_LINK \<in> error_recovery ctx then
        (let saved_errno = errno w;
             (ctx, w) =
               (if errno w = ETIMEDOUT then modbus_flush E (sleep_response_timeout E (ctx, w))
                else if errno w = EBADF then modbus_connect E (modbus_close E (ctx, w))
                else (ctx, w))
         in (ctx, w\<lparr>errno := saved_errno\<rparr>))
      else (ctx, w))"

definition recv_failed :: "externals \<Rightarrow> modbus_t \<times> world \<Rightarrow> modbus_t \<times> world" where
  "recv_failed E cw =
     (let (ctx, w) = cw in
      if MODBUS_ERROR_RECOVERY_LINK \<in> error_recovery ctx \<and>
         (errno w = ECONNRESET \<or> errno w = ECONNREFUSED \<or> errno w = EBADF) then
        (let saved_errno = errno w;
             (ctx, w) = modbus_connect E (modbus_close E (ctx, w))
         in (ctx, w\<lparr>errno := saved_errno\<rparr>))
      else (ctx, w))"

text \<open>
  The \<open>switch (step)\<close> that runs when a step has been read in full: the new step and
  the new \<open>length_to_read\<close>, or the \<open>errno\<close> of the early return. The case
  \<open>_STEP_FUNCTION\<close> falls through to \<open>_STEP_META\<close> when no metadata is needed.
\<close>

definition step_meta :: "externals \<Rightarrow> modbus_t \<Rightarrow> msg_type_t \<Rightarrow> buf \<Rightarrow> int \<Rightarrow> errno_t + step_t \<times> int" where
  "step_meta E ctx msg_type msg msg_length =
     (let length_to_read = compute_data_length_after_meta E ctx msg msg_type in
      if msg_length + length_to_read > int (max_adu_length (backend ctx)) then Inl EMBBADDATA
      else Inr (STEP_DATA, length_to_read))"

definition step_switch ::
  "externals \<Rightarrow> modbus_t \<Rightarrow> msg_type_t \<Rightarrow> step_t \<Rightarrow> buf \<Rightarrow> int \<Rightarrow> int \<Rightarrow> errno_t + step_t \<times> int" where
  "step_switch E ctx msg_type step msg msg_length length_to_read =
     (if length_to_read = 0 then
        (case step of
           STEP_FUNCTION \<Rightarrow>
             (let length_to_read =
                    compute_meta_length_after_function E
                      (uint (msg (header_length (backend ctx)))) msg_type
              in if length_to_read \<noteq> 0 then Inr (STEP_META, length_to_read)
                 else step_meta E ctx msg_type msg msg_length)
         | STEP_META \<Rightarrow> step_meta E ctx msg_type msg msg_length
         | STEP_DATA \<Rightarrow> Inr (step, length_to_read))
      else Inr (step, length_to_read))"

text \<open>
  The \<open>while (length_to_read > 0)\<close> loop with what follows it. The result is the
  return value, the context, the buffer and the world; \<open>None\<close> when a system call
  does not return.
\<close>

function receive_loop ::
  "externals \<Rightarrow> modbus_t \<Rightarrow> msg_type_t \<Rightarrow> int \<Rightarrow> step_t \<Rightarrow> int \<Rightarrow> int \<Rightarrow> timeval option \<Rightarrow> buf
     \<Rightarrow> world \<Rightarrow> (int \<times> modbus_t \<times> buf \<times> world) option" where
  "receive_loop E ctx msg_type s_arg step length_to_read msg_length p_tv msg w =
     (if length_to_read > 0 then
        (case modbus_tcp_select_s ctx p_tv length_to_read s_arg w of
           None \<Rightarrow> None
         | Some (rc, w1) \<Rightarrow>
             if rc = -1 then
               (case select_failed E (ctx, w1) of (ctx, w) \<Rightarrow> Some (-1, ctx, msg, w))
             else
               (case modbus_tcp_recv_s msg (nat msg_length) length_to_read s_arg w1 of
                  None \<Rightarrow> None
                | Some (rc, msg, w2) \<Rightarrow>
                    (let w3 = (if rc = 0 then w2\<lparr>errno := ECONNRESET\<rparr> else w2);
                         rc = (if rc = 0 then -1 else rc)
                     in if rc = -1 then
                          (case recv_failed E (ctx, w3) of (ctx, w) \<Rightarrow> Some (-1, ctx, msg, w))
                        else
                          (let msg_length = msg_length + rc;
                               length_to_read = length_to_read - rc
                           in case step_switch E ctx msg_type step msg msg_length length_to_read of
                                Inl e \<Rightarrow> Some (-1, ctx, msg, w3\<lparr>errno := e\<rparr>)
                              | Inr (step, length_to_read) \<Rightarrow>
                                  receive_loop E ctx msg_type s_arg step length_to_read msg_length
                                    (if length_to_read > 0 \<and> tv_sec (byte_timeout ctx) \<noteq> -1
                                     then Some (byte_timeout ctx) else p_tv)
                                    msg w3))))
      else
        (case (if traceCallback ctx then trace_callback E msg msg_length (ctx, w) else (ctx, w)) of
           (ctx, w) \<Rightarrow> Some (modbus_tcp_check_integrity ctx msg msg_length, ctx, msg, w)))"
  by pat_completeness auto
termination
proof (relation "measure (\<lambda>(E, ctx, msg_type, s_arg, step, length_to_read, msg_length, p_tv, msg, w).
                   length (selects w))", goal_cases)
  case 1
  show ?case by simp
next
  case (2 E ctx msg_type s_arg step length_to_read msg_length p_tv msg w x2 rc w1 x2a rc' x2b msg' w2 w3)
  have shrink: "length (selects w'') < length (selects w')"
    if "modbus_tcp_select_s c tv l sa w' = Some (r, w'')" for c tv l sa w' r w''
    using that
  proof (induction c tv l sa w' rule: modbus_tcp_select_s.induct)
    case (1 c tv l sa w')
    from "1.prems" show ?case
      by (subst (asm) modbus_tcp_select_s.simps)
         (auto split: list.splits prod.splits if_splits simp: Let_def dest!: "1.IH")
  qed
  have keep: "selects w'' = selects w'"
    if "modbus_tcp_recv_s m off l sa w' = Some (r, m', w'')" for m off l sa w' r m' w''
    using that
    by (auto simp: modbus_tcp_recv_s_def recv_def Let_def split: list.splits arrival.splits)
  from 2 show ?case
    using shrink [of ctx p_tv length_to_read s_arg w rc w1]
          keep [of msg "nat msg_length" length_to_read s_arg w1 rc' msg' w2]
    by (auto split: if_splits)
qed

declare receive_loop.simps [simp del]

definition modbus_tcp_receive_msg ::
  "externals \<Rightarrow> modbus_t \<Rightarrow> buf \<Rightarrow> msg_type_t \<Rightarrow> int \<Rightarrow> world
     \<Rightarrow> (int \<times> modbus_t \<times> buf \<times> world) option" where
  "modbus_tcp_receive_msg E ctx msg msg_type s_arg w =
     (let msg_length = 0;
          step = STEP_FUNCTION;
          length_to_read = int (header_length (backend ctx)) + 1;
          p_tv = (if msg_type = MSG_INDICATION then None else Some (response_timeout ctx))
      in receive_loop E ctx msg_type s_arg step length_to_read msg_length p_tv msg w)"

text \<open>
  The states the loop of one call of \<open>_modbus_tcp_receive_msg\<close> comes to: the state
  the call enters the loop with, and the state after each turn in which \<open>select\<close>
  and \<open>recv\<close> succeed and the \<open>switch\<close> does not return. A state is the step,
  \<open>length_to_read\<close>, \<open>msg_length\<close>, the timeout in force, the buffer and the world.
\<close>

inductive loop_reaches ::
  "externals \<Rightarrow> modbus_t \<Rightarrow> buf \<Rightarrow> msg_type_t \<Rightarrow> int \<Rightarrow> world
     \<Rightarrow> step_t \<Rightarrow> int \<Rightarrow> int \<Rightarrow> timeval option \<Rightarrow> buf \<Rightarrow> world \<Rightarrow> bool"
  for E ctx msg0 msg_type s_arg w0 where
  enter:
    "loop_reaches E ctx msg0 msg_type s_arg w0
       STEP_FUNCTION (int (header_length (backend ctx)) + 1) 0
       (if msg_type = MSG_INDICATION then None else Some (response_timeout ctx)) msg0 w0"
| turn:
    "loop_reaches E ctx msg0 msg_type s_arg w0 step length_to_read msg_length p_tv msg w
     \<Longrightarrow> 0 < length_to_read
     \<Longrightarrow> modbus_tcp_select_s ctx p_tv length_to_read s_arg w = Some (rc_select, w1)
     \<Longrightarrow> rc_select \<noteq> -1
     \<Longrightarrow> modbus_tcp_recv_s msg (nat msg_length) length_to_read s_arg w1 = Some (rc, msg', w2)
     \<Longrightarrow> rc \<noteq> 0 \<Longrightarrow> rc \<noteq> -1
     \<Longrightarrow> step_switch E ctx msg_type step msg' (msg_length + rc) (length_to_read - rc)
           = Inr (step', length_to_read')
     \<Longrightarrow> loop_reaches E ctx msg0 msg_type s_arg w0
           step' length_to_read' (msg_length + rc)
           (if length_to_read' > 0 \<and> tv_sec (byte_timeout ctx) \<noteq> -1
            then Some (byte_timeout ctx) else p_tv)
           msg' w2"

text \<open>
  The public entry point of a server. \<open>ctx\<close> is \<open>None\<close> for the null pointer.
  Returning before \<open>_modbus_tcp_receive_msg\<close> leaves the caller's context as it is.
\<close>

definition modbus_tcp_receive ::
  "externals \<Rightarrow> modbus_t option \<Rightarrow> int \<Rightarrow> buf \<Rightarrow> world
     \<Rightarrow> (int \<times> modbus_t option \<times> buf \<times> world) option" where
  "modbus_tcp_receive E ctx s_arg query w =
     (if s_arg = 0 then Some (-1, ctx, query, w\<lparr>errno := EINVAL\<rparr>)
      else case ctx of
        None \<Rightarrow> Some (-1, ctx, query, w\<lparr>errno := EINVAL\<rparr>)
      | Some c \<Rightarrow>
          (case modbus_tcp_receive_msg E (c\<lparr>s := s_arg\<rparr>) query MSG_INDICATION s_arg w of
             None \<Rightarrow> None
           | Some (rc, c, query, w) \<Rightarrow> Some (rc, Some c, query, w)))"

subsection \<open>Macros of the headers and the backend tables\<close>

text \<open>
  The macros below are defined in headers that are not part of the source file. The
  model takes their values as a parameter.
\<close>

record macros =
  MODBUS_TCP_HEADER_LENGTH :: nat
  MODBUS_TCP_CHECKSUM_LENGTH :: nat
  MODBUS_TCP_MAX_ADU_LENGTH :: nat
  MODBUS_TCP_PRESET_REQ_LENGTH :: int
  MODBUS_TCP_PI_NODE_LENGTH :: nat
  MODBUS_TCP_PI_SERVICE_LENGTH :: nat

definition modbus_tcp_backend :: "macros \<Rightarrow> modbus_backend_t" where
  "modbus_tcp_backend K =
     \<lparr>header_length = MODBUS_TCP_HEADER_LENGTH K,
      checksum_length = MODBUS_TCP_CHECKSUM_LENGTH K,
      max_adu_length = MODBUS_TCP_MAX_ADU_LENGTH K,
      connect_pi = False\<rparr>"

definition modbus_tcp_pi_backend :: "macros \<Rightarrow> modbus_backend_t" where
  "modbus_tcp_pi_backend K =
     \<lparr>header_length = MODBUS_TCP_HEADER_LENGTH K,
      checksum_length = MODBUS_TCP_CHECKSUM_LENGTH K,
      max_adu_length = MODBUS_TCP_MAX_ADU_LENGTH K,
      connect_pi = True\<rparr>"

subsection \<open>Objects on the heap: constructors, clone, transaction id\<close>

text \<open>
  The constructors and \<open>modbus_clone_tcp\<close> allocate, and the transaction id lives in
  the block that \<open>ctx->backend_data\<close> points to, so these functions are modelled on
  a heap. An address is an index into the list of cells; \<open>None\<close> is a cell that is
  freed or allocated and not yet written. \<open>malloc\<close> returns the next index, which no
  older pointer holds; that it could return \<open>NULL\<close>, which the source does not test,
  is outside the model. Reading through a pointer that holds no object of the right
  type is a fault, the result \<open>None\<close>.

  \<open>modbus_tcp_t\<close> and \<open>modbus_tcp_pi_t\<close> have the members the source uses; \<open>t_id\<close>
  is compared with \<open>UINT16_MAX\<close> and is a \<open>uint16_t\<close>. A C string is the list of its
  characters before the terminating NUL.

  A block is a \<open>modbus_tcp_t\<close>, a \<open>modbus_tcp_pi_t\<close>, or \<open>Truncated x\<close>: a block of
  \<open>sizeof(modbus_tcp_t)\<close> bytes that holds the first \<open>sizeof(modbus_tcp_t)\<close> bytes of
  the \<open>modbus_tcp_pi_t\<close> \<open>x\<close>. With its node and service arrays \<open>modbus_tcp_pi_t\<close>
  is taken to be the larger struct, so a truncated block is shorter than the struct it
  was cut from; \<open>t_id\<close> is in it, the rest of what it covers depends on the layout of
  the structs.
\<close>

record modbus_tcp_t =
  t_id :: "16 word"
  port :: int
  ip :: string

record modbus_tcp_pi_t =
  pi_t_id :: "16 word"
  node :: string
  service :: string

datatype obj = Ctx modbus_t | Tcp modbus_tcp_t | Tcp_pi modbus_tcp_pi_t | Truncated modbus_tcp_pi_t

type_synonym heap = "obj option list"

definition deref :: "heap \<Rightarrow> nat \<Rightarrow> obj option" where
  "deref h a = (if a < length h then h ! a else None)"

definition malloc :: "heap \<Rightarrow> nat \<times> heap" where
  "malloc h = (length h, h @ [None])"

text \<open>
  \<open>strlcpy(dst, src, dsize)\<close>: the return value, which is the length of \<open>src\<close>, and
  the string left in \<open>dst\<close>.
\<close>

definition strlcpy :: "string \<Rightarrow> nat \<Rightarrow> nat \<times> string" where
  "strlcpy src dsize = (length src, take (dsize - 1) src)"

definition modbus_tcp_free :: "heap \<Rightarrow> nat \<Rightarrow> heap option" where
  "modbus_tcp_free h ctx =
     (case deref h ctx of
        Some (Ctx c) \<Rightarrow> Some (h[backend_data c := None, ctx := None])
      | _ \<Rightarrow> None)"

text \<open>
  \<open>modbus_new_tcp\<close>. \<open>ctx_init\<close> is the object that \<open>_modbus_init_common\<close>, which is
  not in the source file, leaves behind. \<open>modbus_free\<close> is not in the file either; it
  is taken to call the \<open>free\<close> member of the backend, \<open>_modbus_tcp_free\<close> in both
  tables. The result is the pointer returned (\<open>None\<close> for \<open>NULL\<close>), the heap and the
  world. The block under \<open>OS_BSD\<close> is left out.
\<close>

definition modbus_new_tcp ::
  "macros \<Rightarrow> modbus_t \<Rightarrow> string \<Rightarrow> int \<Rightarrow> heap \<Rightarrow> world \<Rightarrow> (nat option \<times> heap \<times> world) option" where
  "modbus_new_tcp K ctx_init ip_arg port_arg h w =
     (let (ctx, h) = malloc h;
          c = ctx_init\<lparr>slave := MODBUS_TCP_SLAVE\<rparr>;
          c = c\<lparr>backend := modbus_tcp_backend K\<rparr>;
          (ctx_tcp, h) = malloc h;
          h = h[ctx := Some (Ctx (c\<lparr>backend_data := ctx_tcp\<rparr>))];
          dest_size = 16;
          (ret_size, ip_copy) = strlcpy ip_arg dest_size
      in if ret_size = 0 then
           (case modbus_tcp_free h ctx of
              None \<Rightarrow> None
            | Some h \<Rightarrow> Some (None, h, w\<lparr>errno := EINVAL\<rparr>))
         else if ret_size \<ge> dest_size then
           (case modbus_tcp_free h ctx of
              None \<Rightarrow> None
            | Some h \<Rightarrow> Some (None, h, w\<lparr>errno := EINVAL\<rparr>))
         else
           Some (Some ctx,
                 h[ctx_tcp := Some (Tcp \<lparr>t_id = 0, port = port_arg, ip = ip_copy\<rparr>)], w))"

definition modbus_new_tcp_pi ::
  "macros \<Rightarrow> modbus_t \<Rightarrow> string \<Rightarrow> string \<Rightarrow> heap \<Rightarrow> world \<Rightarrow> (nat option \<times> heap \<times> world) option" where
  "modbus_new_tcp_pi K ctx_init node_arg service_arg h w =
     (let (ctx, h) = malloc h;
          c = ctx_init\<lparr>slave := MODBUS_TCP_SLAVE\<rparr>;
          c = c\<lparr>backend := modbus_tcp_pi_backend K\<rparr>;
          (ctx_tcp_pi, h) = malloc h;
          h = h[ctx := Some (Ctx (c\<lparr>backend_data := ctx_tcp_pi\<rparr>))];
          dest_size = MODBUS_TCP_PI_NODE_LENGTH K;
          (ret_size, node_copy) = strlcpy node_arg dest_size
      in if ret_size = 0 then
           (case modbus_tcp_free h ctx of
              None \<Rightarrow> None
            | Some h \<Rightarrow> Some (None, h, w\<lparr>errno := EINVAL\<rparr>))
         else if ret_size \<ge> dest_size then
           (case modbus_tcp_free h ctx of
              None \<Rightarrow> None
            | Some h \<Rightarrow> Some (None, h, w\<lparr>errno := EINVAL\<rparr>))
         else
           (let dest_size = MODBUS_TCP_PI_SERVICE_LENGTH K;
                (ret_size, service_copy) = strlcpy service_arg dest_size
            in if ret_size = 0 then
                 (case modbus_tcp_free h ctx of
                    None \<Rightarrow> None
                  | Some h \<Rightarrow> Some (None, h, w\<lparr>errno := EINVAL\<rparr>))
               else if ret_size \<ge> dest_size then
                 (case modbus_tcp_free h ctx of
                    None \<Rightarrow> None
                  | Some h \<Rightarrow> Some (None, h, w\<lparr>errno := EINVAL\<rparr>))
               else
                 Some (Some ctx,
                       h[ctx_tcp_pi := Some (Tcp_pi \<lparr>pi_t_id = 0, node = node_copy,
                                                     service = service_copy\<rparr>)], w)))"

text \<open>
  What \<open>memcpy(dst, src, sizeof(modbus_tcp_t))\<close> leaves in a fresh block \<open>dst\<close> of
  \<open>sizeof(modbus_tcp_t)\<close> bytes, for the object at \<open>src\<close>: a \<open>modbus_tcp_t\<close> is
  copied whole, a \<open>modbus_tcp_pi_t\<close> is cut to its first \<open>sizeof(modbus_tcp_t)\<close>
  bytes, and a block that is already cut to that size is copied whole. A source that
  is not a transport parameter block is a fault.
\<close>

definition memcpy_sizeof_tcp :: "obj \<Rightarrow> obj option" where
  "memcpy_sizeof_tcp src =
     (case src of
        Tcp x \<Rightarrow> Some (Tcp x)
      | Tcp_pi x \<Rightarrow> Some (Truncated x)
      | Truncated x \<Rightarrow> Some (Truncated x)
      | Ctx c \<Rightarrow> None)"

text \<open>
  \<open>modbus_clone_tcp\<close>. The first \<open>memcpy\<close> copies the \<open>modbus_t\<close> object; the second
  copies \<open>sizeof(modbus_tcp_t)\<close> bytes of the block of the original, whichever
  backend the original has: the function tests nothing.
\<close>

definition modbus_clone_tcp :: "heap \<Rightarrow> nat \<Rightarrow> (nat \<times> heap) option" where
  "modbus_clone_tcp h ctx =
     (let (new_ctx, h) = malloc h in
      case deref h ctx of
        Some (Ctx c) \<Rightarrow>
          (let h = h[new_ctx := Some (Ctx c)];
               (new_data, h) = malloc h;
               h = h[new_ctx := Some (Ctx (c\<lparr>backend_data := new_data\<rparr>))]
           in case deref h ctx of
                Some (Ctx c) \<Rightarrow>
                  (case deref h (backend_data c) of
                     None \<Rightarrow> None
                   | Some src \<Rightarrow>
                       (case memcpy_sizeof_tcp src of
                          None \<Rightarrow> None
                        | Some copy \<Rightarrow> Some (new_ctx, h[new_data := Some copy])))
              | _ \<Rightarrow> None)
      | _ \<Rightarrow> None)"

text \<open>
  \<open>_modbus_tcp_build_request_basis\<close>. Both backends call it, and it reads the counter
  through a \<open>modbus_tcp_t *\<close> whichever block \<open>backend_data\<close> points to: \<open>t_id\<close> is
  taken to sit at the same place in both structs, within the first
  \<open>sizeof(modbus_tcp_t)\<close> bytes.
\<close>

definition UINT16_MAX :: "16 word" where
  "UINT16_MAX = 0xFFFF"

definition block_t_id :: "obj \<Rightarrow> 16 word option" where
  "block_t_id b =
     (case b of
        Tcp x \<Rightarrow> Some (t_id x)
      | Tcp_pi x \<Rightarrow> Some (pi_t_id x)
      | Truncated x \<Rightarrow> Some (pi_t_id x)
      | Ctx c \<Rightarrow> None)"

definition block_set_t_id :: "obj \<Rightarrow> 16 word \<Rightarrow> obj" where
  "block_set_t_id b v =
     (case b of
        Tcp x \<Rightarrow> Tcp (x\<lparr>t_id := v\<rparr>)
      | Tcp_pi x \<Rightarrow> Tcp_pi (x\<lparr>pi_t_id := v\<rparr>)
      | Truncated x \<Rightarrow> Truncated (x\<lparr>pi_t_id := v\<rparr>)
      | Ctx c \<Rightarrow> Ctx c)"

definition modbus_tcp_build_request_basis ::
  "macros \<Rightarrow> heap \<Rightarrow> nat \<Rightarrow> int \<Rightarrow> int \<Rightarrow> int \<Rightarrow> buf \<Rightarrow> (int \<times> buf \<times> heap) option" where
  "modbus_tcp_build_request_basis K h ctx function addr nb req =
     (case deref h ctx of
        Some (Ctx c) \<Rightarrow>
          (case deref h (backend_data c) of
             None \<Rightarrow> None
           | Some ctx_tcp \<Rightarrow>
               (case block_t_id ctx_tcp of
                  None \<Rightarrow> None
                | Some t \<Rightarrow>
                    (let t = (if t < UINT16_MAX then t + 1 else 0);
                         h = h[backend_data c := Some (block_set_t_id ctx_tcp t)];
                         req = req(0 := ucast (drop_bit 8 t));
                         req = req(1 := ucast (t AND 0x00ff));
                         req = req(2 := 0);
                         req = req(3 := 0);
                         req = req(6 := word_of_int (slave c));
                         req = req(7 := word_of_int function);
                         req = req(8 := word_of_int (drop_bit 8 addr));
                         req = req(9 := word_of_int (addr AND 0x00ff));
                         req = req(10 := word_of_int (drop_bit 8 nb));
                         req = req(11 := word_of_int (nb AND 0x00ff))
                     in Some (MODBUS_TCP_PRESET_REQ_LENGTH K, req, h))))
      | _ \<Rightarrow> None)"

text \<open>
  Successive calls of the request builder, on the contexts and with the arguments a
  schedule lists: for each call, the context and the transaction id that
  \<open>_modbus_tcp_prepare_response_tid\<close> reads back from the header just built.
\<close>

type_synonym build_call = "nat \<times> int \<times> int \<times> int \<times> buf"

fun build_requests :: "macros \<Rightarrow> heap \<Rightarrow> build_call list \<Rightarrow> ((nat \<times> int) list \<times> heap) option" where
  "build_requests K h [] = Some ([], h)"
| "build_requests K h ((ctx, function, addr, nb, req) # rest) =
     (case modbus_tcp_build_request_basis K h ctx function addr nb req of
        None \<Rightarrow> None
      | Some (rc, req, h) \<Rightarrow>
          (case build_requests K h rest of
             None \<Rightarrow> None
           | Some (ids, h) \<Rightarrow> Some ((ctx, modbus_tcp_prepare_response_tid req) # ids, h)))"

text \<open>The ids built on one context, in call order.\<close>

definition ids_of :: "nat \<Rightarrow> (nat \<times> int) list \<Rightarrow> int list" where
  "ids_of ctx ids = map snd (filter (\<lambda>ci. fst ci = ctx) ids)"

text \<open>
  The transport parameters a context pointer leads to: the address of the block and
  the counter in it.
\<close>

definition params_of :: "heap \<Rightarrow> nat \<Rightarrow> (nat \<times> 16 word) option" where
  "params_of h ctx =
     (case deref h ctx of
        Some (Ctx c) \<Rightarrow>
          (case deref h (backend_data c) of
             None \<Rightarrow> None
           | Some b \<Rightarrow> (case block_t_id b of None \<Rightarrow> None | Some t \<Rightarrow> Some (backend_data c, t)))
      | _ \<Rightarrow> None)"

subsection \<open>Concrete values for the examples\<close>

text \<open>The values the macros have in the headers of libmodbus.\<close>

definition libmodbus_macros :: macros where
  "libmodbus_macros =
     \<lparr>MODBUS_TCP_HEADER_LENGTH = 7, MODBUS_TCP_CHECKSUM_LENGTH = 0,
      MODBUS_TCP_MAX_ADU_LENGTH = 260, MODBUS_TCP_PRESET_REQ_LENGTH = 12,
      MODBUS_TCP_PI_NODE_LENGTH = 1025, MODBUS_TCP_PI_SERVICE_LENGTH = 32\<rparr>"

definition ctx_example :: modbus_t where
  "ctx_example =
     \<lparr>slave = 0xFF, s = 5, debug = 0, error_recovery = {MODBUS_ERROR_RECOVERY_LINK},
      response_timeout = \<lparr>tv_sec = 0, tv_usec = 500000\<rparr>,
      byte_timeout = \<lparr>tv_sec = 0, tv_usec = 500000\<rparr>,
      backend = modbus_tcp_backend libmodbus_macros, backend_data = 1,
      traceCallback = False\<rparr>"

definition world_example :: world where
  "world_example = \<lparr>errno = Errno_other 0, selects = [], inbound = [], calls = []\<rparr>"

text \<open>
  An instance of the functions the file does not define, for the examples. The two
  length functions are right for function code 3 (a request has four more bytes; a
  response has a byte count and then that many bytes). The others log their call;
  \<open>modbus_close\<close> and \<open>modbus_connect\<close> also overwrite the descriptor and
  \<open>errno\<close>, as the real ones may.
\<close>

definition log_call :: "string \<Rightarrow> modbus_t \<times> world \<Rightarrow> modbus_t \<times> world" where
  "log_call name cw = (fst cw, (snd cw)\<lparr>calls := calls (snd cw) @ [Lib_call name]\<rparr>)"

definition externals_example :: externals where
  "externals_example =
     \<lparr>compute_meta_length_after_function = (\<lambda>f t. if t = MSG_INDICATION then 4 else 1),
      compute_data_length_after_meta =
        (\<lambda>ctx msg t. if t = MSG_INDICATION then 0
                      else uint (msg (header_length (backend ctx) + 1))),
      sleep_response_timeout = log_call ''_sleep_response_timeout'',
      modbus_flush = log_call ''modbus_flush'',
      modbus_close =
        (\<lambda>cw. log_call ''modbus_close'' ((fst cw)\<lparr>s := -1\<rparr>, snd cw)),
      modbus_connect =
        (\<lambda>cw. log_call ''modbus_connect'' ((fst cw)\<lparr>s := -1\<rparr>, (snd cw)\<lparr>errno := ECONNREFUSED\<rparr>)),
      trace_callback = (\<lambda>msg n. log_call ''traceCallback'')\<rparr>"

text \<open>
  The heap after \<open>modbus_new_tcp("127.0.0.1", 502)\<close> on the empty heap, and after
  \<open>modbus_clone_tcp\<close> of that context.
\<close>

definition heap_example :: heap where
  "heap_example =
     [Some (Ctx (ctx_example\<lparr>backend_data := 1\<rparr>)),
      Some (Tcp \<lparr>t_id = 0, port = 502, ip = ''127.0.0.1''\<rparr>)]"


text \<open>
  The heap after one request has been built on the context of \<open>heap_example\<close>, and
  after \<open>modbus_clone_tcp\<close> of the context at that point.
\<close>

definition heap_built_example :: heap where
  "heap_built_example =
     [Some (Ctx (ctx_example\<lparr>backend_data := 1\<rparr>)),
      Some (Tcp \<lparr>t_id = 1, port = 502, ip = ''127.0.0.1''\<rparr>)]"

definition heap_built_cloned_example :: heap where
  "heap_built_cloned_example =
     heap_built_example @
     [Some (Ctx (ctx_example\<lparr>backend_data := 3\<rparr>)),
      Some (Tcp \<lparr>t_id = 1, port = 502, ip = ''127.0.0.1''\<rparr>)]"

text \<open>
  The heap after \<open>modbus_new_tcp_pi("localhost", "502")\<close> on the empty heap, and after
  \<open>modbus_clone_tcp\<close> of that context.
\<close>

definition ctx_pi_example :: modbus_t where
  "ctx_pi_example = ctx_example\<lparr>backend := modbus_tcp_pi_backend libmodbus_macros\<rparr>"

definition heap_pi_example :: heap where
  "heap_pi_example =
     [Some (Ctx (ctx_pi_example\<lparr>backend_data := 1\<rparr>)),
      Some (Tcp_pi \<lparr>pi_t_id = 0, node = ''localhost'', service = ''502''\<rparr>)]"


definition zero_buf :: buf where
  "zero_buf = (\<lambda>i. 0)"

text \<open>
  A read-holding-registers request with transaction id 1, a response to it, and a
  response with transaction id 2.
\<close>

definition req_example :: buf where
  "req_example = write_bytes zero_buf 0 [0x00, 0x01, 0, 0, 0, 6, 0x11, 0x03, 0x00, 0x6B, 0x00, 0x01]"

definition rsp_example :: buf where
  "rsp_example = write_bytes zero_buf 0 [0x00, 0x01, 0, 0, 0, 5, 0x11, 0x03, 0x02, 0xAB, 0xCD]"

definition rsp_other_tid :: buf where
  "rsp_other_tid = write_bytes zero_buf 0 [0x00, 0x02, 0, 0, 0, 5, 0x11, 0x03, 0x02, 0xAB, 0xCD]"

section \<open>Theorems\<close>

lemma low_byte_of_int: "uint (word_of_int (n AND 0xFF) :: byte) = n mod 256"
proof -
  have "n AND 0xFF = take_bit 8 n"
    by (simp add: take_bit_eq_mask mask_eq_exp_minus_1)
  then show ?thesis by (simp add: uint_word_of_int take_bit_eq_mod)
qed

lemma be16_of_int: "push_bit 8 (uint (word_of_int (drop_bit 8 n) :: byte))
    + uint (word_of_int (n AND 0xFF) :: byte) = n mod 65536"
proof -
  have hi: "uint (word_of_int (drop_bit 8 n) :: byte) = (n div 256) mod 256"
    by (simp add: uint_word_of_int drop_bit_eq_div)
  have "n mod (256 * 256) = 256 * ((n div 256) mod 256) + n mod 256"
    using zmod_zmult2_eq [of 256 n 256] by simp
  then show ?thesis by (simp add: hi low_byte_of_int push_bit_eq_mult)
qed

subsection \<open>Unit id (C6)\<close>

text \<open>
  C6. Setting the unit id succeeds, returning 0 and storing the value, for every
  integer in [0,247] and for 0xFF; for every other integer it returns -1 with
  \<open>errno\<close> set to \<open>EINVAL\<close> and leaves the context as it was.
\<close>

theorem set_slave_accepts_exactly:
  "(0 \<le> v \<and> v \<le> 247 \<or> v = 0xFF
      \<longrightarrow> modbus_set_slave ctx v w = (0, ctx\<lparr>slave := v\<rparr>, w))
   \<and> (\<not> (0 \<le> v \<and> v \<le> 247 \<or> v = 0xFF)
      \<longrightarrow> modbus_set_slave ctx v w = (-1, ctx, w\<lparr>errno := EINVAL\<rparr>))"
  by (simp add: modbus_set_slave_def MODBUS_TCP_SLAVE_def)

theorem set_slave_accepts_exactly_witness:
  "modbus_set_slave ctx_example 17 world_example = (0, ctx_example\<lparr>slave := 17\<rparr>, world_example)
   \<and> modbus_set_slave ctx_example 0xFF world_example
       = (0, ctx_example\<lparr>slave := 0xFF\<rparr>, world_example)
   \<and> modbus_set_slave ctx_example 248 world_example
       = (-1, ctx_example, world_example\<lparr>errno := EINVAL\<rparr>)
   \<and> modbus_set_slave ctx_example (-1) world_example
       = (-1, ctx_example, world_example\<lparr>errno := EINVAL\<rparr>)"
  using set_slave_accepts_exactly [of 17 ctx_example world_example]
        set_slave_accepts_exactly [of "0xFF" ctx_example world_example]
        set_slave_accepts_exactly [of 248 ctx_example world_example]
        set_slave_accepts_exactly [of "-1" ctx_example world_example]
  by simp

subsection \<open>Transaction id check (C4)\<close>

text \<open>
  C4. Pre-check-confirmation returns -1 with \<open>errno\<close> set to \<open>EMBBADDATA\<close> if and
  only if request and response differ at offset 0 or at offset 1, and returns 0,
  leaving \<open>errno\<close>, when they agree there; no other byte, and neither the context
  nor the response length, has a part in the result.
\<close>

theorem pre_check_confirmation_compares_tid:
  "(fst (modbus_tcp_pre_check_confirmation ctx req rsp n w) = -1
      \<and> errno (snd (modbus_tcp_pre_check_confirmation ctx req rsp n w)) = EMBBADDATA
      \<longleftrightarrow> \<not> (req 0 = rsp 0 \<and> req 1 = rsp 1))
   \<and> (req 0 = rsp 0 \<and> req 1 = rsp 1
      \<longrightarrow> modbus_tcp_pre_check_confirmation ctx req rsp n w = (0, w))
   \<and> (\<not> (req 0 = rsp 0 \<and> req 1 = rsp 1)
      \<longrightarrow> modbus_tcp_pre_check_confirmation ctx req rsp n w = (-1, w\<lparr>errno := EMBBADDATA\<rparr>))"
  by (simp add: modbus_tcp_pre_check_confirmation_def)

lemma example_tids:
  "req_example 0 = rsp_example 0" "req_example 1 = rsp_example 1"
  "req_example 1 \<noteq> rsp_other_tid 1" "req_example 9 \<noteq> rsp_example 9"
  by (simp_all add: req_example_def rsp_example_def rsp_other_tid_def write_bytes_def zero_buf_def)

theorem pre_check_confirmation_compares_tid_witness:
  "modbus_tcp_pre_check_confirmation ctx_example req_example rsp_example 11 world_example
     = (0, world_example)
   \<and> req_example 9 \<noteq> rsp_example 9
   \<and> modbus_tcp_pre_check_confirmation ctx_example req_example rsp_other_tid 11 world_example
     = (-1, world_example\<lparr>errno := EMBBADDATA\<rparr>)"
  using pre_check_confirmation_compares_tid [of ctx_example req_example rsp_example 11 world_example]
        pre_check_confirmation_compares_tid [of ctx_example req_example rsp_other_tid 11 world_example]
        example_tids
  by simp

subsection \<open>Length patch (C5)\<close>

lemma send_msg_pre_buf:
  "snd (modbus_tcp_send_msg_pre req n)
     = req(4 := word_of_int (drop_bit 8 (n - 6)), 5 := word_of_int ((n - 6) AND 0xFF))"
  by (simp add: modbus_tcp_send_msg_pre_def Let_def)

lemma send_msg_pre_twice:
  "snd (modbus_tcp_send_msg_pre (snd (modbus_tcp_send_msg_pre req n)) n)
     = snd (modbus_tcp_send_msg_pre req n)"
  by (simp add: send_msg_pre_buf fun_eq_iff)

lemma send_msg_pre_iterate:
  "((\<lambda>b. snd (modbus_tcp_send_msg_pre b n)) ^^ Suc k) req = snd (modbus_tcp_send_msg_pre req n)"
  by (induction k) (simp_all add: send_msg_pre_twice)

text \<open>
  C5. The length patch returns \<open>req_length\<close>, changes no byte other than bytes 4 and
  5, and leaves in them the two bytes of \<open>req_length - 6\<close>, high byte first: read
  back big-endian the field is \<open>req_length - 6\<close> modulo 65536, which is
  \<open>req_length - 6\<close> itself for every length from 6 to 65541. Patching any number of
  times gives the message that patching once gives.
\<close>

theorem send_msg_pre_patches_length:
  "fst (modbus_tcp_send_msg_pre req n) = n
   \<and> mbap_length_field (snd (modbus_tcp_send_msg_pre req n)) = (n - 6) mod 65536
   \<and> (6 \<le> n \<and> n \<le> 65541 \<longrightarrow> mbap_length_field (snd (modbus_tcp_send_msg_pre req n)) = n - 6)
   \<and> (\<forall>i. i \<noteq> 4 \<and> i \<noteq> 5 \<longrightarrow> snd (modbus_tcp_send_msg_pre req n) i = req i)
   \<and> ((\<lambda>b. snd (modbus_tcp_send_msg_pre b n)) ^^ Suc k) req = snd (modbus_tcp_send_msg_pre req n)"
proof -
  have field: "mbap_length_field (snd (modbus_tcp_send_msg_pre req n)) = (n - 6) mod 65536"
    using be16_of_int [of "n - 6"] by (simp add: send_msg_pre_buf mbap_length_field_def)
  have ret: "fst (modbus_tcp_send_msg_pre req n) = n"
    by (simp add: modbus_tcp_send_msg_pre_def Let_def)
  have others: "\<forall>i. i \<noteq> 4 \<and> i \<noteq> 5 \<longrightarrow> snd (modbus_tcp_send_msg_pre req n) i = req i"
    by (simp add: send_msg_pre_buf)
  from field ret others send_msg_pre_iterate [of k n req] show ?thesis
    by simp
qed

theorem send_msg_pre_patches_length_witness:
  "fst (modbus_tcp_send_msg_pre req_example 12) = 12
   \<and> mbap_length_field (snd (modbus_tcp_send_msg_pre req_example 12)) = 6
   \<and> snd (modbus_tcp_send_msg_pre req_example 12) 7 = req_example 7
   \<and> snd (modbus_tcp_send_msg_pre (snd (modbus_tcp_send_msg_pre
        (snd (modbus_tcp_send_msg_pre req_example 12)) 12)) 12)
       = snd (modbus_tcp_send_msg_pre req_example 12)"
  using send_msg_pre_patches_length [of req_example 12 2]
  by (simp add: numeral_2_eq_2)

subsection \<open>Message reassembly: one turn of the loop\<close>

text \<open>
  The lemmas below unfold one turn of the loop from any state. A call of
  \<open>_modbus_tcp_receive_msg\<close> returns what the loop returns from any state the call
  comes to, so what holds for one turn holds for the call.
\<close>

lemma select_failed_errno: "errno (snd (select_failed E (c, w))) = errno w"
  by (simp add: select_failed_def Let_def split: prod.splits)

lemma recv_failed_errno: "errno (snd (recv_failed E (c, w))) = errno w"
  by (simp add: recv_failed_def Let_def split: prod.splits)

lemma recv_s_result:
  assumes "modbus_tcp_recv_s msg off len sd w = Some (rc, msg', w')" and "0 < len"
  shows "(rc = -1 \<and> msg' = msg) \<or> (0 \<le> rc \<and> rc \<le> len)"
    and "\<forall>i. i < off \<or> off + nat rc \<le> i \<longrightarrow> msg' i = msg i"
  using assms
  by (auto simp: modbus_tcp_recv_s_def recv_def Let_def write_bytes_def
           split: list.splits arrival.splits)

lemma receive_loop_select_fails:
  assumes "0 < ltr" and "modbus_tcp_select_s ctx p_tv ltr sd w = Some (-1, w1)"
  shows "receive_loop E ctx mt sd step ltr ml p_tv msg w
           = Some (-1, fst (select_failed E (ctx, w1)), msg, snd (select_failed E (ctx, w1)))"
  using assms by (subst receive_loop.simps) (simp split: prod.splits)

lemma receive_loop_recv_fails:
  assumes "0 < ltr" and "modbus_tcp_select_s ctx p_tv ltr sd w = Some (rc, w1)" and "rc \<noteq> -1"
    and "modbus_tcp_recv_s msg (nat ml) ltr sd w1 = Some (rc2, msg', w2)"
    and "rc2 = 0 \<or> rc2 = -1"
  shows "receive_loop E ctx mt sd step ltr ml p_tv msg w
           = Some (-1, fst (recv_failed E (ctx, if rc2 = 0 then w2\<lparr>errno := ECONNRESET\<rparr> else w2)),
                   msg', snd (recv_failed E (ctx, if rc2 = 0 then w2\<lparr>errno := ECONNRESET\<rparr> else w2)))"
  using assms by (subst receive_loop.simps) (auto simp: Let_def split: prod.splits)

lemma receive_loop_step:
  assumes "0 < ltr" and "modbus_tcp_select_s ctx p_tv ltr sd w = Some (rc, w1)" and "rc \<noteq> -1"
    and "modbus_tcp_recv_s msg (nat ml) ltr sd w1 = Some (rc2, msg', w2)"
    and "rc2 \<noteq> 0" and "rc2 \<noteq> -1"
  shows "receive_loop E ctx mt sd step ltr ml p_tv msg w
           = (case step_switch E ctx mt step msg' (ml + rc2) (ltr - rc2) of
                Inl e \<Rightarrow> Some (-1, ctx, msg', w2\<lparr>errno := e\<rparr>)
              | Inr (step', ltr') \<Rightarrow>
                  receive_loop E ctx mt sd step' ltr' (ml + rc2)
                    (if ltr' > 0 \<and> tv_sec (byte_timeout ctx) \<noteq> -1
                     then Some (byte_timeout ctx) else p_tv) msg' w2)"
  using assms by (subst receive_loop.simps) (simp add: Let_def)

lemma receive_loop_done:
  assumes "\<not> 0 < ltr"
  shows "receive_loop E ctx mt sd step ltr ml p_tv msg w
           = Some (ml, fst (if traceCallback ctx then trace_callback E msg ml (ctx, w) else (ctx, w)), msg,
                   snd (if traceCallback ctx then trace_callback E msg ml (ctx, w) else (ctx, w)))"
  using assms by (subst receive_loop.simps) (simp add: modbus_tcp_check_integrity_def split: prod.splits)

lemma select_s_consumes:
  "modbus_tcp_select_s c tv l sa w = Some (r, w') \<Longrightarrow> length (selects w') < length (selects w)"
proof (induction c tv l sa w rule: modbus_tcp_select_s.induct)
  case (1 c tv l sa w)
  from "1.prems" show ?case
    by (subst (asm) modbus_tcp_select_s.simps)
       (auto split: list.splits prod.splits if_splits simp: Let_def dest!: "1.IH")
qed

lemma recv_s_keeps_selects:
  "modbus_tcp_recv_s m off l sa w = Some (r, m', w') \<Longrightarrow> selects w' = selects w"
  by (auto simp: modbus_tcp_recv_s_def recv_def Let_def split: list.splits arrival.splits)

lemma step_switch_keeps_bound:
  assumes sw: "step_switch E ctx mt step m ml ltr = Inr (step2, ltr2)"
    and meta: "\<forall>f t. int (header_length (backend ctx)) + 1 + compute_meta_length_after_function E f t
                  \<le> int (max_adu_length (backend ctx))"
    and "ml + ltr \<le> int (max_adu_length (backend ctx))" and "0 \<le> ltr"
    and "step = STEP_FUNCTION \<longrightarrow> ml + ltr = int (header_length (backend ctx)) + 1"
  shows "0 < ltr2 \<longrightarrow> ml + ltr2 \<le> int (max_adu_length (backend ctx))"
    and "step2 = STEP_FUNCTION \<longrightarrow> ml + ltr2 = int (header_length (backend ctx)) + 1 \<and> 0 < ltr2"
proof -
  let ?f = "uint (m (header_length (backend ctx)))"
  from meta have m1: "int (header_length (backend ctx)) + 1 + compute_meta_length_after_function E ?f mt
                  \<le> int (max_adu_length (backend ctx))" by blast
  from sw m1 assms(3-5)
  show "0 < ltr2 \<longrightarrow> ml + ltr2 \<le> int (max_adu_length (backend ctx))"
    by (cases step) (auto simp: step_switch_def step_meta_def Let_def split: if_splits)
  from sw assms(3-5)
  show "step2 = STEP_FUNCTION \<longrightarrow> ml + ltr2 = int (header_length (backend ctx)) + 1 \<and> 0 < ltr2"
    by (cases step) (auto simp: step_switch_def step_meta_def Let_def split: if_splits)
qed

lemma receive_loop_within_bound:
  assumes meta: "\<forall>f t. int (header_length (backend ctx)) + 1 + compute_meta_length_after_function E f t
                  \<le> int (max_adu_length (backend ctx))"
  shows "receive_loop E ctx mt sd step ltr ml p_tv msg w = Some (rc, c', msg', w')
     \<Longrightarrow> 0 \<le> ml \<Longrightarrow> ml \<le> int (max_adu_length (backend ctx))
     \<Longrightarrow> (0 < ltr \<longrightarrow> ml + ltr \<le> int (max_adu_length (backend ctx)))
     \<Longrightarrow> (step = STEP_FUNCTION \<longrightarrow> ml + ltr = int (header_length (backend ctx)) + 1 \<and> 0 < ltr)
     \<Longrightarrow> rc \<le> int (max_adu_length (backend ctx))
         \<and> (\<forall>i. max_adu_length (backend ctx) \<le> i \<longrightarrow> msg' i = msg i)"
proof (induction "length (selects w)" arbitrary: step ltr ml p_tv msg w rule: less_induct)
  case less
  let ?M = "int (max_adu_length (backend ctx))"
  note run = less.prems(1)
  show ?case
  proof (cases "0 < ltr")
    case False
    with run less.prems(2,3) show ?thesis
      by (simp add: receive_loop_done)
  next
    case pos: True
    show ?thesis
    proof (cases "modbus_tcp_select_s ctx p_tv ltr sd w")
      case None
      with run pos show ?thesis
        by (subst (asm) receive_loop.simps) simp
    next
      case (Some a)
      obtain r w1 where sel: "modbus_tcp_select_s ctx p_tv ltr sd w = Some (r, w1)"
        using Some by (cases a) simp
      show ?thesis
      proof (cases "r = -1")
        case True
        with run pos sel show ?thesis
          by (simp add: receive_loop_select_fails)
      next
        case ready: False
        show ?thesis
        proof (cases "modbus_tcp_recv_s msg (nat ml) ltr sd w1")
          case None
          with run pos sel ready show ?thesis
            by (subst (asm) receive_loop.simps) simp
        next
          case (Some b)
          obtain rc2 m2 w2 where rcv: "modbus_tcp_recv_s msg (nat ml) ltr sd w1 = Some (rc2, m2, w2)"
            using Some by (cases b) auto
          have range: "(rc2 = -1 \<and> m2 = msg) \<or> (0 \<le> rc2 \<and> rc2 \<le> ltr)"
            and frame: "\<forall>i. i < nat ml \<or> nat ml + nat rc2 \<le> i \<longrightarrow> m2 i = msg i"
            using recv_s_result [OF rcv pos] by blast+
          have untouched: "\<forall>i. max_adu_length (backend ctx) \<le> i \<longrightarrow> m2 i = msg i"
          proof (intro allI impI)
            fix i assume "max_adu_length (backend ctx) \<le> i"
            with range pos less.prems(2,4) have "m2 = msg \<or> nat ml + nat rc2 \<le> i"
              by auto
            with frame show "m2 i = msg i" by auto
          qed
          show ?thesis
          proof (cases "rc2 = 0 \<or> rc2 = -1")
            case True
            with run untouched show ?thesis
              by (simp add: receive_loop_recv_fails [OF pos sel ready rcv])
          next
            case False
            then have nz: "rc2 \<noteq> 0" "rc2 \<noteq> -1" by simp_all
            with range have rc2: "0 < rc2" "rc2 \<le> ltr" by auto
            note unfold = receive_loop_step [OF pos sel ready rcv nz, of E mt step]
            show ?thesis
            proof (cases "step_switch E ctx mt step m2 (ml + rc2) (ltr - rc2)")
              case (Inl e)
              with run unfold untouched show ?thesis by simp
            next
              case (Inr sl)
              obtain step2 ltr2 where sw: "step_switch E ctx mt step m2 (ml + rc2) (ltr - rc2) = Inr (step2, ltr2)"
                using Inr by (cases sl) simp
              have smaller: "length (selects w2) < length (selects w)"
                using select_s_consumes [OF sel] recv_s_keeps_selects [OF rcv] by simp
              have sum: "ml + rc2 + (ltr - rc2) \<le> ?M" "0 \<le> ltr - rc2"
                using less.prems(4) pos rc2 by auto
              have fn: "step = STEP_FUNCTION \<longrightarrow> ml + rc2 + (ltr - rc2) = int (header_length (backend ctx)) + 1"
                using less.prems(5) by auto
              note keep = step_switch_keeps_bound [OF sw meta sum fn]
              from run unfold sw
              have next_run: "receive_loop E ctx mt sd step2 ltr2 (ml + rc2)
                    (if ltr2 > 0 \<and> tv_sec (byte_timeout ctx) \<noteq> -1 then Some (byte_timeout ctx) else p_tv)
                    m2 w2 = Some (rc, c', msg', w')"
                by simp
              have "rc \<le> ?M \<and> (\<forall>i. max_adu_length (backend ctx) \<le> i \<longrightarrow> msg' i = m2 i)"
                using less.hyps [OF smaller next_run] keep sum less.prems(2) rc2 by auto
              with untouched show ?thesis by simp
            qed
          qed
        qed
      qed
    qed
  qed
qed
lemma write_bytes_Nil: "write_bytes b off [] = b"
  by (auto simp: write_bytes_def fun_eq_iff)

lemma link_example: "MODBUS_ERROR_RECOVERY_LINK \<in> error_recovery ctx_example"
  by (simp add: ctx_example_def)

lemma loop_reaches_same_result:
  assumes "loop_reaches E ctx msg0 mt sd w0 step ltr ml p_tv msg w"
  shows "modbus_tcp_receive_msg E ctx msg0 mt sd w0 = receive_loop E ctx mt sd step ltr ml p_tv msg w"
  using assms
proof (induction rule: loop_reaches.induct)
  case enter
  show ?case by (simp add: modbus_tcp_receive_msg_def Let_def)
next
  case (turn step ltr ml p_tv msg w r w1 rc m2 w2 step' ltr')
  from receive_loop_step [OF turn.hyps(2-7), of E mt step] turn.hyps(8) turn.IH
  show ?case by simp
qed

lemma example_sizes:
  "header_length (backend ctx_example) = 7" "max_adu_length (backend ctx_example) = 260"
  "tv_sec (byte_timeout ctx_example) = 0"
  by (simp_all add: ctx_example_def modbus_tcp_backend_def libmodbus_macros_def)

lemma enter_example:
  "loop_reaches externals_example ctx_example msg0 MSG_CONFIRMATION sd w0
     STEP_FUNCTION 8 0 (Some (response_timeout ctx_example)) msg0 w0"
  using loop_reaches.enter [of externals_example ctx_example msg0 MSG_CONFIRMATION sd w0]
  by (simp add: example_sizes)

subsection \<open>The bound on the message (C2)\<close>

text \<open>
  C2. Let a call of \<open>_modbus_tcp_receive_msg\<close> come to a turn of its loop in which the
  read completes the metadata step (or the function step, for a function that needs
  no metadata), and let the bytes consumed so far plus the data length then computed
  exceed the maximum ADU length of the backend. Then the call returns -1 with
  \<open>errno\<close> set to \<open>EMBBADDATA\<close>, and the world it returns is the one that read left
  behind: no further \<open>select\<close> or \<open>recv\<close> is issued and the input not yet read stays
  in the socket. As a result, provided the header, the function code and the metadata
  of any function fit in the maximum ADU length, every return value of the call is at
  most the maximum ADU length and no byte of the caller's buffer at or beyond that
  offset is changed, whatever the environment does.
\<close>

theorem too_much_data_rejected_before_reading:
  "(loop_reaches E ctx msg0 mt sd w0 step ltr ml p_tv msg w
      \<and> 0 < ltr \<and> modbus_tcp_select_s ctx p_tv ltr sd w = Some (r, w1) \<and> r \<noteq> -1
      \<and> modbus_tcp_recv_s msg (nat ml) ltr sd w1 = Some (ltr, m2, w2)
      \<and> (step = STEP_META
          \<or> step = STEP_FUNCTION
             \<and> compute_meta_length_after_function E (uint (m2 (header_length (backend ctx)))) mt = 0)
      \<and> int (max_adu_length (backend ctx)) < ml + ltr + compute_data_length_after_meta E ctx m2 mt
     \<longrightarrow> modbus_tcp_receive_msg E ctx msg0 mt sd w0
           = Some (-1, ctx, m2, w2\<lparr>errno := EMBBADDATA\<rparr>))
   \<and> (int (header_length (backend ctx)) + 1 \<le> int (max_adu_length (backend ctx))
      \<and> (\<forall>f t. int (header_length (backend ctx)) + 1 + compute_meta_length_after_function E f t
                  \<le> int (max_adu_length (backend ctx)))
      \<and> modbus_tcp_receive_msg E ctx msg0 mt sd w0 = Some (rc, c', msg', w')
     \<longrightarrow> rc \<le> int (max_adu_length (backend ctx))
         \<and> (\<forall>i. max_adu_length (backend ctx) \<le> i \<longrightarrow> msg' i = msg0 i))"
proof (rule conjI; rule impI)
  assume a: "loop_reaches E ctx msg0 mt sd w0 step ltr ml p_tv msg w
      \<and> 0 < ltr \<and> modbus_tcp_select_s ctx p_tv ltr sd w = Some (r, w1) \<and> r \<noteq> -1
      \<and> modbus_tcp_recv_s msg (nat ml) ltr sd w1 = Some (ltr, m2, w2)
      \<and> (step = STEP_META
          \<or> step = STEP_FUNCTION
             \<and> compute_meta_length_after_function E (uint (m2 (header_length (backend ctx)))) mt = 0)
      \<and> int (max_adu_length (backend ctx)) < ml + ltr + compute_data_length_after_meta E ctx m2 mt"
  then have here: "loop_reaches E ctx msg0 mt sd w0 step ltr ml p_tv msg w"
    and pos: "0 < ltr" and sel: "modbus_tcp_select_s ctx p_tv ltr sd w = Some (r, w1)"
    and ready: "r \<noteq> -1" and rcv: "modbus_tcp_recv_s msg (nat ml) ltr sd w1 = Some (ltr, m2, w2)"
    by simp_all
  from pos have nz: "ltr \<noteq> 0" "ltr \<noteq> -1" by simp_all
  from a have "step_switch E ctx mt step m2 (ml + ltr) (ltr - ltr) = Inl EMBBADDATA"
    by (auto simp: step_switch_def step_meta_def Let_def)
  then show "modbus_tcp_receive_msg E ctx msg0 mt sd w0 = Some (-1, ctx, m2, w2\<lparr>errno := EMBBADDATA\<rparr>)"
    by (simp add: loop_reaches_same_result [OF here] receive_loop_step [OF pos sel ready rcv nz])
next
  assume b: "int (header_length (backend ctx)) + 1 \<le> int (max_adu_length (backend ctx))
      \<and> (\<forall>f t. int (header_length (backend ctx)) + 1 + compute_meta_length_after_function E f t
                  \<le> int (max_adu_length (backend ctx)))
      \<and> modbus_tcp_receive_msg E ctx msg0 mt sd w0 = Some (rc, c', msg', w')"
  then have meta: "\<forall>f t. int (header_length (backend ctx)) + 1 + compute_meta_length_after_function E f t
                  \<le> int (max_adu_length (backend ctx))"
    by blast
  from b have run: "receive_loop E ctx mt sd STEP_FUNCTION (int (header_length (backend ctx)) + 1) 0
      (if mt = MSG_INDICATION then None else Some (response_timeout ctx)) msg0 w0 = Some (rc, c', msg', w')"
    by (simp add: modbus_tcp_receive_msg_def Let_def)
  from b show "rc \<le> int (max_adu_length (backend ctx))
         \<and> (\<forall>i. max_adu_length (backend ctx) \<le> i \<longrightarrow> msg' i = msg0 i)"
    using receive_loop_within_bound [OF meta run] by simp
qed

theorem too_much_data_rejected_before_reading_witness:
  "(\<exists>m'. modbus_tcp_receive_msg externals_example ctx_example zero_buf MSG_CONFIRMATION 5
          (world_example\<lparr>selects := [(1, EINTR), (1, EINTR)],
                         inbound := [Segment [0, 1, 0, 0, 0, 5, 0x11, 3, 0xFF, 1, 2]]\<rparr>)
         = Some (-1, ctx_example, m',
             \<lparr>errno = EMBBADDATA, selects = [], inbound = [Segment [1, 2]],
              calls = [Sys_select 6 (Some (response_timeout ctx_example)), Sys_recv 5 0 8,
                       Sys_select 6 (Some (byte_timeout ctx_example)), Sys_recv 5 8 1]\<rparr>))
   \<and> (\<exists>m'. modbus_tcp_receive_msg externals_example ctx_example zero_buf MSG_CONFIRMATION 5
          (world_example\<lparr>selects := [(1, EINTR), (1, EINTR), (1, EINTR)],
                         inbound := [Segment [0, 1, 0, 0, 0, 5, 0x11, 3, 2, 0xAB, 0xCD]]\<rparr>)
         = Some (11, ctx_example, m',
             \<lparr>errno = Errno_other 0, selects = [], inbound = [],
              calls = [Sys_select 6 (Some (response_timeout ctx_example)), Sys_recv 5 0 8,
                       Sys_select 6 (Some (byte_timeout ctx_example)), Sys_recv 5 8 1,
                       Sys_select 6 (Some (byte_timeout ctx_example)), Sys_recv 5 9 2]\<rparr>)
        \<and> (11::int) \<le> int (max_adu_length (backend ctx_example))
        \<and> m' (max_adu_length (backend ctx_example)) = zero_buf (max_adu_length (backend ctx_example)))"
proof -
  let ?rt = "Some (response_timeout ctx_example)"
  let ?bt = "Some (byte_timeout ctx_example)"
  let ?big = "world_example\<lparr>selects := [(1, EINTR), (1, EINTR)],
                         inbound := [Segment [0, 1, 0, 0, 0, 5, 0x11, 3, 0xFF, 1, 2]]\<rparr>"
  let ?big_a = "\<lparr>errno = Errno_other 0, selects = [(1, EINTR)],
                  inbound = [Segment [0, 1, 0, 0, 0, 5, 0x11, 3, 0xFF, 1, 2]],
                  calls = [Sys_select 6 ?rt]\<rparr>"
  let ?big_b = "\<lparr>errno = Errno_other 0, selects = [(1, EINTR)], inbound = [Segment [0xFF, 1, 2]],
                  calls = [Sys_select 6 ?rt, Sys_recv 5 0 8]\<rparr>"
  let ?big_c = "\<lparr>errno = Errno_other 0, selects = [], inbound = [Segment [0xFF, 1, 2]],
                  calls = [Sys_select 6 ?rt, Sys_recv 5 0 8, Sys_select 6 ?bt]\<rparr>"
  let ?big_d = "\<lparr>errno = Errno_other 0, selects = [], inbound = [Segment [1, 2]],
                  calls = [Sys_select 6 ?rt, Sys_recv 5 0 8, Sys_select 6 ?bt, Sys_recv 5 8 1]\<rparr>"
  let ?head = "write_bytes zero_buf 0 [0, 1, 0, 0, 0, 5, 0x11, 3]"
  let ?meta = "write_bytes ?head 8 [0xFF]"
  let ?good = "world_example\<lparr>selects := [(1, EINTR), (1, EINTR), (1, EINTR)],
                     inbound := [Segment [0, 1, 0, 0, 0, 5, 0x11, 3, 2, 0xAB, 0xCD]]\<rparr>"
  let ?final = "\<lparr>errno = Errno_other 0, selects = [], inbound = [],
          calls = [Sys_select 6 ?rt, Sys_recv 5 0 8, Sys_select 6 ?bt, Sys_recv 5 8 1,
                   Sys_select 6 ?bt, Sys_recv 5 9 2]\<rparr>"
  have sel1: "modbus_tcp_select_s ctx_example ?rt 8 5 ?big = Some (1, ?big_a)"
    by (simp add: modbus_tcp_select_s.simps world_example_def)
  have rcv1: "modbus_tcp_recv_s zero_buf (nat 0) 8 5 ?big_a = Some (8, ?head, ?big_b)"
    by (simp add: modbus_tcp_recv_s_def recv_def)
  have sw1: "step_switch externals_example ctx_example MSG_CONFIRMATION STEP_FUNCTION ?head (0 + 8) (8 - 8)
               = Inr (STEP_META, 1)"
    by (simp add: step_switch_def externals_example_def)
  have here: "loop_reaches externals_example ctx_example zero_buf MSG_CONFIRMATION 5 ?big
                STEP_META 1 8 ?bt ?head ?big_b"
    using loop_reaches.turn [OF enter_example _ sel1 _ rcv1 _ _ sw1]
    by (simp add: example_sizes)
  have sel2: "modbus_tcp_select_s ctx_example ?bt 1 5 ?big_b = Some (1, ?big_c)"
    by (simp add: modbus_tcp_select_s.simps)
  have rcv2: "modbus_tcp_recv_s ?head (nat 8) 1 5 ?big_c = Some (1, ?meta, ?big_d)"
    by (simp add: modbus_tcp_recv_s_def recv_def)
  have len: "compute_data_length_after_meta externals_example ctx_example ?meta MSG_CONFIRMATION = 255"
    by (simp add: externals_example_def example_sizes write_bytes_def)
  have meta: "\<forall>f t. int (header_length (backend ctx_example)) + 1
                 + compute_meta_length_after_function externals_example f t
               \<le> int (max_adu_length (backend ctx_example))"
    by (simp add: example_sizes externals_example_def)
  have "\<exists>m'. modbus_tcp_receive_msg externals_example ctx_example zero_buf MSG_CONFIRMATION 5 ?good
               = Some (11, ctx_example, m', ?final)"
    by (simp add: modbus_tcp_receive_msg_def receive_loop.simps modbus_tcp_select_s.simps
          modbus_tcp_recv_s_def recv_def step_switch_def step_meta_def modbus_tcp_check_integrity_def
          externals_example_def write_bytes_def zero_buf_def Let_def
          ctx_example_def world_example_def modbus_tcp_backend_def libmodbus_macros_def)
  then obtain m' where
    run: "modbus_tcp_receive_msg externals_example ctx_example zero_buf MSG_CONFIRMATION 5 ?good
               = Some (11, ctx_example, m', ?final)"
    by blast
  have "modbus_tcp_receive_msg externals_example ctx_example zero_buf MSG_CONFIRMATION 5 ?big
          = Some (-1, ctx_example, ?meta, ?big_d\<lparr>errno := EMBBADDATA\<rparr>)
    \<and> (11::int) \<le> int (max_adu_length (backend ctx_example))
    \<and> m' (max_adu_length (backend ctx_example)) = zero_buf (max_adu_length (backend ctx_example))"
    using too_much_data_rejected_before_reading
            [where ltr = 1 and ctx = ctx_example and p_tv = ?bt
               and sd = 5 and w = ?big_b and r = 1 and ?w1.0 = ?big_c and msg = ?head and ml = 8
               and ?m2.0 = ?meta and ?w2.0 = ?big_d and step = STEP_META and E = externals_example
               and mt = MSG_CONFIRMATION and msg0 = zero_buf and ?w0.0 = ?big]
          too_much_data_rejected_before_reading
            [where ctx = ctx_example and E = externals_example
               and mt = MSG_CONFIRMATION and msg0 = zero_buf and sd = 5 and ?w0.0 = ?good and rc = 11
               and c' = ctx_example and msg' = m' and w' = ?final]
          here sel2 rcv2 len meta run
    by (simp add: example_sizes)
  with run show ?thesis by auto
qed

subsection \<open>Link recovery (C3)\<close>

text \<open>
  C3. With the link recovery bit set, let a call of \<open>_modbus_tcp_receive_msg\<close> come to
  any turn of its loop. If \<open>select\<close> fails there with \<open>ETIMEDOUT\<close>, the call runs
  \<open>_sleep_response_timeout\<close> and then \<open>modbus_flush\<close>; if \<open>select\<close> fails with
  \<open>EBADF\<close>, or \<open>recv\<close> fails with \<open>ECONNRESET\<close>, \<open>ECONNREFUSED\<close> or \<open>EBADF\<close>, it
  runs \<open>modbus_close\<close> and then \<open>modbus_connect\<close>. In each case the call returns -1
  and \<open>errno\<close> is the one of the failure, whatever the repair functions did to it.
\<close>

theorem link_recovery_repairs_and_reraises:
  assumes link: "MODBUS_ERROR_RECOVERY_LINK \<in> error_recovery ctx"
    and here: "loop_reaches E ctx msg0 mt sd w0 step ltr ml p_tv msg w" and pos: "0 < ltr"
  shows
    "(modbus_tcp_select_s ctx p_tv ltr sd w = Some (-1, w1) \<and> errno w1 = ETIMEDOUT
        \<longrightarrow> modbus_tcp_receive_msg E ctx msg0 mt sd w0
              = Some (-1, fst (modbus_flush E (sleep_response_timeout E (ctx, w1))), msg,
                      (snd (modbus_flush E (sleep_response_timeout E (ctx, w1))))\<lparr>errno := ETIMEDOUT\<rparr>))
     \<and> (modbus_tcp_select_s ctx p_tv ltr sd w = Some (-1, w1) \<and> errno w1 = EBADF
        \<longrightarrow> modbus_tcp_receive_msg E ctx msg0 mt sd w0
              = Some (-1, fst (modbus_connect E (modbus_close E (ctx, w1))), msg,
                      (snd (modbus_connect E (modbus_close E (ctx, w1))))\<lparr>errno := EBADF\<rparr>))
     \<and> (modbus_tcp_select_s ctx p_tv ltr sd w = Some (r, w1) \<and> r \<noteq> -1
          \<and> modbus_tcp_recv_s msg (nat ml) ltr sd w1 = Some (-1, m2, w2)
          \<and> (errno w2 = ECONNRESET \<or> errno w2 = ECONNREFUSED \<or> errno w2 = EBADF)
        \<longrightarrow> modbus_tcp_receive_msg E ctx msg0 mt sd w0
              = Some (-1, fst (modbus_connect E (modbus_close E (ctx, w2))), m2,
                      (snd (modbus_connect E (modbus_close E (ctx, w2))))\<lparr>errno := errno w2\<rparr>))"
proof (intro conjI impI)
  assume "modbus_tcp_select_s ctx p_tv ltr sd w = Some (-1, w1) \<and> errno w1 = ETIMEDOUT"
  with link show "modbus_tcp_receive_msg E ctx msg0 mt sd w0
              = Some (-1, fst (modbus_flush E (sleep_response_timeout E (ctx, w1))), msg,
                      (snd (modbus_flush E (sleep_response_timeout E (ctx, w1))))\<lparr>errno := ETIMEDOUT\<rparr>)"
    by (simp add: loop_reaches_same_result [OF here] receive_loop_select_fails [OF pos]
          select_failed_def Let_def split: prod.splits)
next
  assume "modbus_tcp_select_s ctx p_tv ltr sd w = Some (-1, w1) \<and> errno w1 = EBADF"
  with link show "modbus_tcp_receive_msg E ctx msg0 mt sd w0
              = Some (-1, fst (modbus_connect E (modbus_close E (ctx, w1))), msg,
                      (snd (modbus_connect E (modbus_close E (ctx, w1))))\<lparr>errno := EBADF\<rparr>)"
    by (simp add: loop_reaches_same_result [OF here] receive_loop_select_fails [OF pos]
          select_failed_def Let_def split: prod.splits)
next
  assume a: "modbus_tcp_select_s ctx p_tv ltr sd w = Some (r, w1) \<and> r \<noteq> -1
          \<and> modbus_tcp_recv_s msg (nat ml) ltr sd w1 = Some (-1, m2, w2)
          \<and> (errno w2 = ECONNRESET \<or> errno w2 = ECONNREFUSED \<or> errno w2 = EBADF)"
  then have sel: "modbus_tcp_select_s ctx p_tv ltr sd w = Some (r, w1)" and ready: "r \<noteq> -1"
    and rcv: "modbus_tcp_recv_s msg (nat ml) ltr sd w1 = Some (-1, m2, w2)"
    by simp_all
  from a link show "modbus_tcp_receive_msg E ctx msg0 mt sd w0
              = Some (-1, fst (modbus_connect E (modbus_close E (ctx, w2))), m2,
                      (snd (modbus_connect E (modbus_close E (ctx, w2))))\<lparr>errno := errno w2\<rparr>)"
    by (simp add: loop_reaches_same_result [OF here] receive_loop_recv_fails [OF pos sel ready rcv]
          recv_failed_def Let_def split: prod.splits)
qed

theorem link_recovery_repairs_and_reraises_witness:
  "modbus_tcp_receive_msg externals_example ctx_example zero_buf MSG_CONFIRMATION 5
      (world_example\<lparr>selects := [(0, EINTR)]\<rparr>)
     = Some (-1, ctx_example, zero_buf,
         \<lparr>errno = ETIMEDOUT, selects = [], inbound = [],
          calls = [Sys_select 6 (Some (response_timeout ctx_example)),
                   Lib_call ''_sleep_response_timeout'', Lib_call ''modbus_flush'']\<rparr>)
   \<and> modbus_tcp_receive_msg externals_example ctx_example zero_buf MSG_CONFIRMATION 5
      (world_example\<lparr>selects := [(-1, EINTR), (-1, EBADF)]\<rparr>)
     = Some (-1, ctx_example\<lparr>s := -1\<rparr>, zero_buf,
         \<lparr>errno = EBADF, selects = [], inbound = [],
          calls = [Sys_select 6 (Some (response_timeout ctx_example)),
                   Sys_select 6 (Some (response_timeout ctx_example)),
                   Lib_call ''modbus_close'', Lib_call ''modbus_connect'']\<rparr>)
   \<and> modbus_tcp_receive_msg externals_example ctx_example zero_buf MSG_CONFIRMATION 5
      (world_example\<lparr>selects := [(1, EINTR)], inbound := [Recv_error ECONNREFUSED]\<rparr>)
     = Some (-1, ctx_example\<lparr>s := -1\<rparr>, zero_buf,
         \<lparr>errno = ECONNREFUSED, selects = [], inbound = [],
          calls = [Sys_select 6 (Some (response_timeout ctx_example)), Sys_recv 5 0 8,
                   Lib_call ''modbus_close'', Lib_call ''modbus_connect'']\<rparr>)"
proof -
  let ?tv = "Some (response_timeout ctx_example)"
  let ?timed_out = "\<lparr>errno = ETIMEDOUT, selects = [], inbound = [], calls = [Sys_select 6 ?tv]\<rparr>"
  let ?bad_fd = "\<lparr>errno = EBADF, selects = [], inbound = [],
                   calls = [Sys_select 6 ?tv, Sys_select 6 ?tv]\<rparr>"
  let ?ready = "\<lparr>errno = Errno_other 0, selects = [], inbound = [Recv_error ECONNREFUSED],
                  calls = [Sys_select 6 ?tv]\<rparr>"
  let ?refused = "\<lparr>errno = ECONNREFUSED, selects = [], inbound = [],
                    calls = [Sys_select 6 ?tv, Sys_recv 5 0 8]\<rparr>"
  have pos: "(0::int) < 8" by simp
  have s1: "modbus_tcp_select_s ctx_example ?tv 8 5 (world_example\<lparr>selects := [(0, EINTR)]\<rparr>)
              = Some (-1, ?timed_out)"
    by (simp add: modbus_tcp_select_s.simps world_example_def)
  have s2: "modbus_tcp_select_s ctx_example ?tv 8 5 (world_example\<lparr>selects := [(-1, EINTR), (-1, EBADF)]\<rparr>)
              = Some (-1, ?bad_fd)"
    by (simp add: modbus_tcp_select_s.simps world_example_def)
  have s3: "modbus_tcp_select_s ctx_example ?tv 8 5
              (world_example\<lparr>selects := [(1, EINTR)], inbound := [Recv_error ECONNREFUSED]\<rparr>)
              = Some (1, ?ready)"
    by (simp add: modbus_tcp_select_s.simps world_example_def)
  have r3: "modbus_tcp_recv_s zero_buf (nat 0) 8 5 ?ready = Some (-1, zero_buf, ?refused)"
    by (simp add: modbus_tcp_recv_s_def recv_def)
  show ?thesis
    using link_recovery_repairs_and_reraises
            [OF link_example
                enter_example [of zero_buf 5 "world_example\<lparr>selects := [(0, EINTR)]\<rparr>"] pos,
             where ?w1.0 = ?timed_out]
          link_recovery_repairs_and_reraises
            [OF link_example
                enter_example [of zero_buf 5 "world_example\<lparr>selects := [(-1, EINTR), (-1, EBADF)]\<rparr>"] pos,
             where ?w1.0 = ?bad_fd]
          link_recovery_repairs_and_reraises
            [OF link_example
                enter_example [of zero_buf 5
                  "world_example\<lparr>selects := [(1, EINTR)], inbound := [Recv_error ECONNREFUSED]\<rparr>"] pos,
             where r = 1 and ?m2.0 = zero_buf and ?w1.0 = ?ready and ?w2.0 = ?refused]
          s1 s2 s3 r3
    by (simp add: externals_example_def log_call_def)
qed

subsection \<open>A read of zero bytes (C7)\<close>

text \<open>
  C7, as the claim states it, fails: after a \<open>recv\<close> that returns 0 the call returns
  -1 with \<open>errno\<close> set to \<open>ECONNRESET\<close>, the code of a connection reset, not a code
  of its own (here with recovery off, so that nothing else touches \<open>errno\<close>).
\<close>

theorem zero_byte_read_peer_closed_counterexample:
  "modbus_tcp_receive_msg externals_example (ctx_example\<lparr>error_recovery := {}\<rparr>) zero_buf
      MSG_CONFIRMATION 5 (world_example\<lparr>selects := [(1, EINTR)], inbound := [Segment []]\<rparr>)
     = Some (-1, ctx_example\<lparr>error_recovery := {}\<rparr>, zero_buf,
         \<lparr>errno = ECONNRESET, selects = [], inbound = [],
          calls = [Sys_select 6 (Some (response_timeout ctx_example)), Sys_recv 5 0 8]\<rparr>)"
  by (simp add: modbus_tcp_receive_msg_def receive_loop.simps modbus_tcp_select_s.simps
        modbus_tcp_recv_s_def recv_def recv_failed_def write_bytes_Nil
        ctx_example_def world_example_def modbus_tcp_backend_def libmodbus_macros_def)

text \<open>
  C7, amended. At any turn of the loop that a call of \<open>_modbus_tcp_receive_msg\<close>
  comes to, a \<open>recv\<close> that returns 0 makes the call return -1 with \<open>errno\<close> set to
  \<open>ECONNRESET\<close>, the same code as a connection reset; with the link recovery bit set
  the connection is closed and reconnected first, as for a reset, and without it
  nothing else is done.
\<close>

theorem zero_byte_read_is_connection_reset:
  assumes here: "loop_reaches E ctx msg0 mt sd w0 step ltr ml p_tv msg w" and pos: "0 < ltr"
    and sel: "modbus_tcp_select_s ctx p_tv ltr sd w = Some (r, w1)" and ready: "r \<noteq> -1"
    and rcv: "modbus_tcp_recv_s msg (nat ml) ltr sd w1 = Some (0, m2, w2)"
  shows
    "modbus_tcp_receive_msg E ctx msg0 mt sd w0
       = Some (-1, fst (recv_failed E (ctx, w2\<lparr>errno := ECONNRESET\<rparr>)), m2,
               snd (recv_failed E (ctx, w2\<lparr>errno := ECONNRESET\<rparr>)))
     \<and> errno (snd (recv_failed E (ctx, w2\<lparr>errno := ECONNRESET\<rparr>))) = ECONNRESET
     \<and> (MODBUS_ERROR_RECOVERY_LINK \<in> error_recovery ctx
        \<longrightarrow> recv_failed E (ctx, w2\<lparr>errno := ECONNRESET\<rparr>)
            = (fst (modbus_connect E (modbus_close E (ctx, w2\<lparr>errno := ECONNRESET\<rparr>))),
               (snd (modbus_connect E (modbus_close E (ctx, w2\<lparr>errno := ECONNRESET\<rparr>))))
                 \<lparr>errno := ECONNRESET\<rparr>))
     \<and> (MODBUS_ERROR_RECOVERY_LINK \<notin> error_recovery ctx
        \<longrightarrow> recv_failed E (ctx, w2\<lparr>errno := ECONNRESET\<rparr>) = (ctx, w2\<lparr>errno := ECONNRESET\<rparr>))"
  using receive_loop_recv_fails [OF pos sel ready rcv, of E mt step]
  by (simp add: loop_reaches_same_result [OF here] recv_failed_errno)
     (simp add: recv_failed_def Let_def split: prod.splits)

theorem zero_byte_read_is_connection_reset_witness:
  "modbus_tcp_receive_msg externals_example ctx_example zero_buf MSG_CONFIRMATION 5
      (world_example\<lparr>selects := [(1, EINTR)], inbound := [Segment []]\<rparr>)
     = Some (-1, ctx_example\<lparr>s := -1\<rparr>, zero_buf,
         \<lparr>errno = ECONNRESET, selects = [], inbound = [],
          calls = [Sys_select 6 (Some (response_timeout ctx_example)), Sys_recv 5 0 8,
                   Lib_call ''modbus_close'', Lib_call ''modbus_connect'']\<rparr>)"
proof -
  let ?tv = "Some (response_timeout ctx_example)"
  let ?ready = "\<lparr>errno = Errno_other 0, selects = [], inbound = [Segment []],
                  calls = [Sys_select 6 ?tv]\<rparr>"
  let ?closed = "\<lparr>errno = Errno_other 0, selects = [], inbound = [],
                   calls = [Sys_select 6 ?tv, Sys_recv 5 0 8]\<rparr>"
  have pos: "(0::int) < 8" and ready: "(1::int) \<noteq> -1" by simp_all
  have sel: "modbus_tcp_select_s ctx_example ?tv 8 5
               (world_example\<lparr>selects := [(1, EINTR)], inbound := [Segment []]\<rparr>) = Some (1, ?ready)"
    by (simp add: modbus_tcp_select_s.simps world_example_def)
  have rcv: "modbus_tcp_recv_s zero_buf (nat 0) 8 5 ?ready = Some (0, zero_buf, ?closed)"
    by (simp add: modbus_tcp_recv_s_def recv_def write_bytes_Nil)
  show ?thesis
    using zero_byte_read_is_connection_reset [OF enter_example pos sel ready rcv] link_example
    by (simp add: externals_example_def log_call_def)
qed

subsection \<open>The server entry point (C10)\<close>

text \<open>
  C10. \<open>modbus_tcp_receive\<close> with descriptor 0 returns -1 with \<open>errno\<close> set to
  \<open>EINVAL\<close> and issues no system call: what is scripted for the socket is still
  there and the context is untouched. With any other descriptor and a context, it
  runs \<open>_modbus_tcp_receive_msg\<close> for an indication on that descriptor, with the
  descriptor stored in the context; with any other descriptor and a null context it
  returns -1 with \<open>EINVAL\<close>.
\<close>

theorem tcp_receive_rejects_descriptor_zero:
  "modbus_tcp_receive E ctx 0 query w = Some (-1, ctx, query, w\<lparr>errno := EINVAL\<rparr>)
   \<and> (sd \<noteq> 0 \<longrightarrow>
        modbus_tcp_receive E (Some c) sd query w
          = (case modbus_tcp_receive_msg E (c\<lparr>s := sd\<rparr>) query MSG_INDICATION sd w of
               None \<Rightarrow> None
             | Some (rc, c', q, w') \<Rightarrow> Some (rc, Some c', q, w')))
   \<and> (sd \<noteq> 0 \<longrightarrow> modbus_tcp_receive E None sd query w = Some (-1, None, query, w\<lparr>errno := EINVAL\<rparr>))"
  by (simp add: modbus_tcp_receive_def)

theorem tcp_receive_rejects_descriptor_zero_witness:
  "modbus_tcp_receive externals_example (Some ctx_example) 0 zero_buf
      (world_example\<lparr>selects := [(1, EINTR)], inbound := [Segment [0, 1, 0, 0, 0, 6, 0x11, 3]]\<rparr>)
     = Some (-1, Some ctx_example, zero_buf,
          \<lparr>errno = EINVAL, selects = [(1, EINTR)],
           inbound = [Segment [0, 1, 0, 0, 0, 6, 0x11, 3]], calls = []\<rparr>)
   \<and> modbus_tcp_receive externals_example None 9 zero_buf world_example
     = Some (-1, None, zero_buf, world_example\<lparr>errno := EINVAL\<rparr>)
   \<and> modbus_tcp_receive externals_example (Some ctx_example) 9 zero_buf
        (world_example\<lparr>selects := [(-1, EBADF)]\<rparr>)
     = Some (-1, Some (ctx_example\<lparr>s := -1\<rparr>), zero_buf,
          \<lparr>errno = EBADF, selects = [], inbound = [],
           calls = [Sys_select 10 None, Lib_call ''modbus_close'', Lib_call ''modbus_connect'']\<rparr>)"
proof -
  have run: "modbus_tcp_receive_msg externals_example (ctx_example\<lparr>s := 9\<rparr>) zero_buf MSG_INDICATION 9
        (world_example\<lparr>selects := [(-1, EBADF)]\<rparr>)
     = Some (-1, ctx_example\<lparr>s := -1\<rparr>, zero_buf,
          \<lparr>errno = EBADF, selects = [], inbound = [],
           calls = [Sys_select 10 None, Lib_call ''modbus_close'', Lib_call ''modbus_connect'']\<rparr>)"
    by (simp add: modbus_tcp_receive_msg_def receive_loop.simps modbus_tcp_select_s.simps
          select_failed_def externals_example_def log_call_def
          ctx_example_def world_example_def modbus_tcp_backend_def libmodbus_macros_def)
  have nz: "(9::int) \<noteq> 0" by simp
  show ?thesis
    using tcp_receive_rejects_descriptor_zero [of externals_example "Some ctx_example" zero_buf
            "world_example\<lparr>selects := [(1, EINTR)], inbound := [Segment [0, 1, 0, 0, 0, 6, 0x11, 3]]\<rparr>"
            9 ctx_example]
          tcp_receive_rejects_descriptor_zero [of externals_example "Some ctx_example" zero_buf
            "world_example\<lparr>selects := [(-1, EBADF)]\<rparr>" 9 ctx_example]
          tcp_receive_rejects_descriptor_zero [of externals_example "Some ctx_example" zero_buf
            world_example 9 ctx_example]
          run nz
    by (simp add: world_example_def)
qed

subsection \<open>Constructors (C8)\<close>

lemma new_tcp_result:
  "modbus_new_tcp K init ip_arg port_arg h w =
     (if ip_arg = [] \<or> 16 \<le> length ip_arg then Some (None, h @ [None, None], w\<lparr>errno := EINVAL\<rparr>)
      else Some (Some (length h),
                 h @ [Some (Ctx (init\<lparr>slave := 0xFF, backend := modbus_tcp_backend K,
                                       backend_data := Suc (length h)\<rparr>)),
                      Some (Tcp \<lparr>t_id = 0, port = port_arg, ip = ip_arg\<rparr>)], w))"
  by (simp add: modbus_new_tcp_def malloc_def strlcpy_def modbus_tcp_free_def deref_def
        MODBUS_TCP_SLAVE_def Let_def nth_append list_update_append)

lemma new_tcp_pi_result:
  "modbus_new_tcp_pi K init node_arg service_arg h w =
     (if node_arg = [] \<or> MODBUS_TCP_PI_NODE_LENGTH K \<le> length node_arg
         \<or> service_arg = [] \<or> MODBUS_TCP_PI_SERVICE_LENGTH K \<le> length service_arg
      then Some (None, h @ [None, None], w\<lparr>errno := EINVAL\<rparr>)
      else Some (Some (length h),
                 h @ [Some (Ctx (init\<lparr>slave := 0xFF, backend := modbus_tcp_pi_backend K,
                                       backend_data := Suc (length h)\<rparr>)),
                      Some (Tcp_pi \<lparr>pi_t_id = 0, node = node_arg, service = service_arg\<rparr>)], w))"
  by (auto simp: modbus_new_tcp_pi_def malloc_def strlcpy_def modbus_tcp_free_def deref_def
        MODBUS_TCP_SLAVE_def Let_def nth_append list_update_append)

lemma clone_tcp_result:
  assumes "deref h p = Some (Ctx c)" and "deref h (backend_data c) = Some b"
    and "memcpy_sizeof_tcp b = Some b'"
  shows "modbus_clone_tcp h p =
           Some (length h, h @ [Some (Ctx (c\<lparr>backend_data := Suc (length h)\<rparr>)), Some b'])"
  using assms
  by (auto simp: modbus_clone_tcp_def malloc_def deref_def Let_def nth_append list_update_append
           split: if_splits)

text \<open>
  C8. \<open>modbus_new_tcp\<close> returns \<open>NULL\<close> with \<open>errno\<close> set to \<open>EINVAL\<close>, and frees
  what it allocated, when the address string is empty or has 16 characters or more;
  \<open>modbus_new_tcp_pi\<close> does the same when the node or the service string is empty or
  reaches its length constant. Otherwise the constructor returns a new context whose
  block holds the strings as given, the port (address-based constructor) and a
  transaction id of 0.
\<close>

theorem constructors_validate_strings:
  "(ip_arg = [] \<or> 16 \<le> length ip_arg
      \<longrightarrow> modbus_new_tcp K init ip_arg port_arg h w
            = Some (None, h @ [None, None], w\<lparr>errno := EINVAL\<rparr>))
   \<and> (ip_arg \<noteq> [] \<and> length ip_arg < 16
      \<longrightarrow> modbus_new_tcp K init ip_arg port_arg h w
            = Some (Some (length h),
                    h @ [Some (Ctx (init\<lparr>slave := MODBUS_TCP_SLAVE, backend := modbus_tcp_backend K,
                                          backend_data := Suc (length h)\<rparr>)),
                         Some (Tcp \<lparr>t_id = 0, port = port_arg, ip = ip_arg\<rparr>)], w))
   \<and> (node_arg = [] \<or> MODBUS_TCP_PI_NODE_LENGTH K \<le> length node_arg
        \<or> service_arg = [] \<or> MODBUS_TCP_PI_SERVICE_LENGTH K \<le> length service_arg
      \<longrightarrow> modbus_new_tcp_pi K init node_arg service_arg h w
            = Some (None, h @ [None, None], w\<lparr>errno := EINVAL\<rparr>))
   \<and> (node_arg \<noteq> [] \<and> length node_arg < MODBUS_TCP_PI_NODE_LENGTH K
        \<and> service_arg \<noteq> [] \<and> length service_arg < MODBUS_TCP_PI_SERVICE_LENGTH K
      \<longrightarrow> modbus_new_tcp_pi K init node_arg service_arg h w
            = Some (Some (length h),
                    h @ [Some (Ctx (init\<lparr>slave := MODBUS_TCP_SLAVE, backend := modbus_tcp_pi_backend K,
                                          backend_data := Suc (length h)\<rparr>)),
                         Some (Tcp_pi \<lparr>pi_t_id = 0, node = node_arg, service = service_arg\<rparr>)], w))"
  by (simp add: new_tcp_result new_tcp_pi_result MODBUS_TCP_SLAVE_def not_le)

theorem constructors_validate_strings_witness:
  "modbus_new_tcp libmodbus_macros ctx_example ''127.0.0.1'' 502 [] world_example
     = Some (Some 0, heap_example, world_example)
   \<and> modbus_new_tcp libmodbus_macros ctx_example [] 502 [] world_example
     = Some (None, [None, None], world_example\<lparr>errno := EINVAL\<rparr>)
   \<and> modbus_new_tcp libmodbus_macros ctx_example ''192.168.100.2000'' 502 [] world_example
     = Some (None, [None, None], world_example\<lparr>errno := EINVAL\<rparr>)
   \<and> modbus_new_tcp_pi libmodbus_macros ctx_example ''localhost'' ''502'' [] world_example
     = Some (Some 0,
         [Some (Ctx (ctx_example\<lparr>backend := modbus_tcp_pi_backend libmodbus_macros, backend_data := 1\<rparr>)),
          Some (Tcp_pi \<lparr>pi_t_id = 0, node = ''localhost'', service = ''502''\<rparr>)], world_example)
   \<and> modbus_new_tcp_pi libmodbus_macros ctx_example ''localhost'' [] [] world_example
     = Some (None, [None, None], world_example\<lparr>errno := EINVAL\<rparr>)"
  using constructors_validate_strings
          [of "''127.0.0.1''" libmodbus_macros ctx_example 502 "[]" world_example "''localhost''" "''502''"]
        constructors_validate_strings
          [of "[]" libmodbus_macros ctx_example 502 "[]" world_example "''localhost''" "[]"]
        constructors_validate_strings
          [of "''192.168.100.2000''" libmodbus_macros ctx_example 502 "[]" world_example "''localhost''" "[]"]
  by (simp add: heap_example_def ctx_example_def MODBUS_TCP_SLAVE_def libmodbus_macros_def)

subsection \<open>Clone (C9)\<close>




subsection \<open>Transaction ids (C1)\<close>

lemma t_id_high_byte: "uint (ucast (drop_bit 8 (t :: 16 word)) :: byte) = uint t div 256"
proof -
  have "uint t < 65536" using uint_lt2p [of t] by simp
  then have small: "uint t div 256 < 256" by simp
  have lt: "uint t mod 65536 = uint t" using \<open>uint t < 65536\<close> by simp
  have "uint (ucast (drop_bit 8 t) :: byte) = take_bit 8 (drop_bit 8 (take_bit 16 (uint t)))"
    by (simp add: unsigned_ucast_eq unsigned_drop_bit_eq)
  also have "\<dots> = (uint t div 256) mod 256"
    by (simp add: take_bit_eq_mod drop_bit_eq_div lt)
  also have "\<dots> = uint t div 256"
    using small by (intro mod_pos_pos_trivial) (simp_all add: pos_imp_zdiv_nonneg_iff)
  finally show ?thesis .
qed
lemma t_id_low_byte: "uint (ucast ((t :: 16 word) AND 0x00ff) :: byte) = uint t mod 256"
proof -
  have "uint t AND 0xFF = take_bit 8 (uint t)"
    by (simp add: take_bit_eq_mask mask_eq_exp_minus_1)
  then show ?thesis
    by (simp add: unsigned_ucast_eq uint_and take_bit_eq_mod)
qed
lemma t_id_wraps: "\<not> t < (0xFFFF :: 16 word) \<Longrightarrow> t + 1 = 0"
proof -
  assume "\<not> t < (0xFFFF :: 16 word)"
  then have "65535 \<le> uint t" by (simp add: word_less_alt)
  moreover have "uint t < 65536" using uint_lt2p [of t] by simp
  ultimately have "uint t = 65535" by simp
  then have "word_of_int (uint t) = (word_of_int 65535 :: 16 word)" by simp
  then have "t = 0xFFFF" by simp
  then show ?thesis by simp
qed

lemma be16_of_word:
  "push_bit 8 (uint (ucast (drop_bit 8 t) :: byte)) + uint (ucast (t AND 0x00ff) :: byte)
     = uint (t :: 16 word)"
  by (simp add: t_id_high_byte t_id_low_byte push_bit_eq_mult)

lemma next_t_id: "(if t < UINT16_MAX then t + 1 else 0) = t + 1"
  using t_id_wraps [of t] by (simp add: UINT16_MAX_def)

lemma build_request_basis_step:
  assumes "deref h p = Some (Ctx c)" and "deref h (backend_data c) = Some b"
    and "block_t_id b = Some t"
  shows "\<exists>req'. modbus_tcp_build_request_basis K h p f a n req
           = Some (MODBUS_TCP_PRESET_REQ_LENGTH K, req',
                   h[backend_data c := Some (block_set_t_id b (t + 1))])
         \<and> modbus_tcp_prepare_response_tid req' = uint (t + 1)"
  using assms be16_of_word [of "t + 1"]
  by (simp add: modbus_tcp_build_request_basis_def next_t_id Let_def
        modbus_tcp_prepare_response_tid_def)

lemma block_t_id_set: "block_t_id b = Some t \<Longrightarrow> block_t_id (block_set_t_id b v) = Some v"
  by (cases b) (simp_all add: block_t_id_def block_set_t_id_def)

lemma params_ofD:
  assumes "params_of h p = Some (bp, t)"
  obtains c b where "deref h p = Some (Ctx c)" and "backend_data c = bp"
    and "deref h bp = Some b" and "block_t_id b = Some t"
  using assms
  by (auto simp: params_of_def split: option.splits obj.splits)

lemma params_of_build:
  assumes "params_of h c = Some (bc, tc)"
  shows "\<exists>req' h'. modbus_tcp_build_request_basis K h c f a n req
           = Some (MODBUS_TCP_PRESET_REQ_LENGTH K, req', h')
         \<and> modbus_tcp_prepare_response_tid req' = uint (tc + 1)
         \<and> (\<forall>q bq tq. params_of h q = Some (bq, tq)
               \<longrightarrow> params_of h' q = Some (bq, if bq = bc then tc + 1 else tq))"
proof -
  from assms obtain x b where x: "deref h c = Some (Ctx x)" and bc: "backend_data x = bc"
    and b: "deref h bc = Some b" and t: "block_t_id b = Some tc"
    by (rule params_ofD)
  let ?h = "h[bc := Some (block_set_t_id b (tc + 1))]"
  from build_request_basis_step [OF x b [folded bc] t, of K f a n req] bc
  obtain req' where run: "modbus_tcp_build_request_basis K h c f a n req
           = Some (MODBUS_TCP_PRESET_REQ_LENGTH K, req', ?h)"
    and tid: "modbus_tcp_prepare_response_tid req' = uint (tc + 1)"
    by auto
  have not_ctx: "deref h y = Some (Ctx x') \<Longrightarrow> y \<noteq> bc" for y x'
    using b t by (auto simp: block_t_id_def)
  have keep: "deref h y = Some (Ctx x') \<Longrightarrow> deref ?h y = Some (Ctx x')" for y x'
    using not_ctx [of y x'] by (auto simp: deref_def split: if_splits)
  have blk: "deref ?h bc = Some (block_set_t_id b (tc + 1))"
    using b by (auto simp: deref_def split: if_splits)
  have other: "y \<noteq> bc \<Longrightarrow> deref ?h y = deref h y" for y
    by (simp add: deref_def)
  have all: "params_of ?h q = Some (bq, if bq = bc then tc + 1 else tq)"
    if "params_of h q = Some (bq, tq)" for q bq tq
  proof -
    from that obtain x' b' where q: "deref h q = Some (Ctx x')" "backend_data x' = bq"
      "deref h bq = Some b'" "block_t_id b' = Some tq"
      by (rule params_ofD)
    show ?thesis
    proof (cases "bq = bc")
      case True
      with keep [OF q(1)] q(2) blk block_t_id_set [OF t] show ?thesis
        by (simp add: params_of_def)
    next
      case False
      with keep [OF q(1)] q(2-4) other [of bq] show ?thesis
        by (simp add: params_of_def)
    qed
  qed
  from run tid all show ?thesis by blast
qed

lemma ids_of_Cons:
  "ids_of p ((c, i) # ids) = (if c = p then i # ids_of p ids else ids_of p ids)"
  by (simp add: ids_of_def)

lemma shifted_ids:
  "uint (t + 1) # map (\<lambda>k. uint (t + 1 + 1 + of_nat k)) [0..<n]
     = map (\<lambda>k. uint (t + 1 + of_nat k)) [0..<Suc n]" for t :: "16 word"
proof -
  have "[0..<Suc n] = 0 # map Suc [0..<n]"
    by (simp add: upt_conv_Cons map_Suc_upt del: upt_Suc)
  then show ?thesis
    by (simp add: comp_def add.assoc del: upt_Suc)
qed

lemma build_requests_one_of_many:
  assumes "params_of h p = Some (bp, tp)"
    and "\<forall>call \<in> set sched. \<exists>b t. params_of h (fst call) = Some (b, t) \<and> (fst call \<noteq> p \<longrightarrow> b \<noteq> bp)"
  shows "\<exists>ids h'. build_requests K h sched = Some (ids, h')
           \<and> ids_of p ids
               = map (\<lambda>k. uint (tp + 1 + of_nat k)) [0..<length (filter (\<lambda>call. fst call = p) sched)]"
  using assms
proof (induction sched arbitrary: h tp)
  case Nil
  then show ?case by (simp add: ids_of_def)
next
  case (Cons call sched)
  obtain c f a n req where call: "call = (c, f, a, n, req)"
    by (cases call) auto
  from Cons.prems(2) call obtain bc tc where c: "params_of h c = Some (bc, tc)"
    and apart: "c \<noteq> p \<longrightarrow> bc \<noteq> bp"
    by auto
  from params_of_build [OF c, of K f a n req]
  obtain req' h1 where run: "modbus_tcp_build_request_basis K h c f a n req
           = Some (MODBUS_TCP_PRESET_REQ_LENGTH K, req', h1)"
    and tid: "modbus_tcp_prepare_response_tid req' = uint (tc + 1)"
    and all: "\<forall>q bq tq. params_of h q = Some (bq, tq)
               \<longrightarrow> params_of h1 q = Some (bq, if bq = bc then tc + 1 else tq)"
    by blast
  have rest: "\<forall>call \<in> set sched. \<exists>b t. params_of h1 (fst call) = Some (b, t) \<and> (fst call \<noteq> p \<longrightarrow> b \<noteq> bp)"
  proof
    fix x assume "x \<in> set sched"
    with Cons.prems(2) obtain b t where "params_of h (fst x) = Some (b, t)" "fst x \<noteq> p \<longrightarrow> b \<noteq> bp"
      by auto
    with all show "\<exists>b t. params_of h1 (fst x) = Some (b, t) \<and> (fst x \<noteq> p \<longrightarrow> b \<noteq> bp)"
      by blast
  qed
  show ?case
  proof (cases "c = p")
    case True
    with c Cons.prems(1) have same: "bc = bp" "tc = tp" by simp_all
    from all Cons.prems(1) same have p1: "params_of h1 p = Some (bp, tp + 1)" by auto
    from Cons.IH [OF p1 rest]
    obtain ids h' where ih: "build_requests K h1 sched = Some (ids, h')"
      "ids_of p ids = map (\<lambda>k. uint (tp + 1 + 1 + of_nat k)) [0..<length (filter (\<lambda>call. fst call = p) sched)]"
      by blast
    have "build_requests K h (call # sched) = Some ((p, uint (tp + 1)) # ids, h')"
      using run tid ih(1) True same by (simp add: call)
    moreover have "ids_of p ((p, uint (tp + 1)) # ids)
        = map (\<lambda>k. uint (tp + 1 + of_nat k)) [0..<length (filter (\<lambda>call. fst call = p) (call # sched))]"
      using ih(2) shifted_ids [of tp] True by (simp add: ids_of_Cons call del: upt_Suc)
    ultimately show ?thesis by blast
  next
    case False
    with apart have "bc \<noteq> bp" by simp
    with all Cons.prems(1) have p1: "params_of h1 p = Some (bp, tp)" by auto
    from Cons.IH [OF p1 rest]
    obtain ids h' where ih: "build_requests K h1 sched = Some (ids, h')"
      "ids_of p ids = map (\<lambda>k. uint (tp + 1 + of_nat k)) [0..<length (filter (\<lambda>call. fst call = p) sched)]"
      by blast
    have "build_requests K h (call # sched) = Some ((c, uint (tc + 1)) # ids, h')"
      using run tid ih(1) by (simp add: call)
    moreover have "ids_of p ((c, uint (tc + 1)) # ids)
        = map (\<lambda>k. uint (tp + 1 + of_nat k)) [0..<length (filter (\<lambda>call. fst call = p) (call # sched))]"
      using ih(2) False by (simp add: ids_of_Cons call)
    ultimately show ?thesis by blast
  qed
qed

lemma ids_from_counter:
  "map (\<lambda>k. uint (t + 1 + of_nat k)) [0..<n] = map (\<lambda>k. (uint t + int k) mod 65536) [1..<Suc n]"
  for t :: "16 word"
proof -
  have "uint (t + 1 + of_nat k) = (uint t + int (Suc k)) mod 65536" for k
  proof -
    have "t + 1 + of_nat k = word_of_int (uint t + int (Suc k))" by simp
    then show ?thesis
      by (simp only: uint_word_of_int) simp
  qed
  moreover have "[1..<Suc n] = map Suc [0..<n]"
    by (simp add: map_Suc_upt del: upt_Suc)
  ultimately show ?thesis
    by (simp add: comp_def del: upt_Suc)
qed

lemma memcpy_sizeof_tcp_block:
  assumes "block_t_id b = Some t"
  shows "\<exists>b'. memcpy_sizeof_tcp b = Some b' \<and> block_t_id b' = Some t"
  using assms by (cases b) (simp_all add: memcpy_sizeof_tcp_def block_t_id_def)

lemma clone_tcp_params:
  assumes "params_of h p = Some (bp, tp)"
  shows "\<exists>h2. modbus_clone_tcp h p = Some (length h, h2)
           \<and> params_of h2 (length h) = Some (Suc (length h), tp)
           \<and> Suc (length h) \<noteq> bp
           \<and> (\<forall>c b t. params_of h c = Some (b, t)
                \<longrightarrow> params_of h2 c = Some (b, t) \<and> b \<noteq> Suc (length h))"
proof -
  from assms obtain x b where x: "deref h p = Some (Ctx x)" and bp: "backend_data x = bp"
    and b: "deref h bp = Some b" and t: "block_t_id b = Some tp"
    by (rule params_ofD)
  from memcpy_sizeof_tcp_block [OF t] obtain b' where cp: "memcpy_sizeof_tcp b = Some b'"
    and t': "block_t_id b' = Some tp"
    by blast
  let ?h2 = "h @ [Some (Ctx (x\<lparr>backend_data := Suc (length h)\<rparr>)), Some b']"
  have run: "modbus_clone_tcp h p = Some (length h, ?h2)"
    using clone_tcp_result [OF x b [folded bp] cp] .
  have old: "deref ?h2 a = deref h a" if "deref h a = Some y" for a y
    using that by (auto simp: deref_def nth_append split: if_splits)
  have new: "params_of ?h2 (length h) = Some (Suc (length h), tp)"
    using t' by (simp add: params_of_def deref_def nth_append)
  have fresh: "Suc (length h) \<noteq> bp"
    using b by (auto simp: deref_def split: if_splits)
  have kept: "params_of ?h2 c = Some (b0, t0) \<and> b0 \<noteq> Suc (length h)"
    if "params_of h c = Some (b0, t0)" for c b0 t0
  proof -
    from that obtain x' b1 where c: "deref h c = Some (Ctx x')" "backend_data x' = b0"
      and b0: "deref h b0 = Some b1" "block_t_id b1 = Some t0"
      by (rule params_ofD)
    from b0 have "b0 < length h"
      by (auto simp: deref_def split: if_splits)
    with c b0 old [of c] old [of b0] show ?thesis
      by (simp add: params_of_def)
  qed
  from run new fresh kept show ?thesis by blast
qed

text \<open>
  C1, as the claim states it, fails: the constructor sets the counter to 0 and the
  builder increments it before writing it, so the first request built on a new
  context carries transaction id 1, not 0, and the second carries 2.
\<close>

theorem transaction_ids_start_at_zero_counterexample:
  "modbus_new_tcp libmodbus_macros ctx_example ''127.0.0.1'' 502 [] world_example
     = Some (Some 0, heap_example, world_example)
   \<and> map_option fst (build_requests libmodbus_macros heap_example
         [(0, 3, 0x6B, 3, zero_buf), (0, 3, 0x6B, 3, zero_buf)])
     = Some [(0, 1), (0, 2)]"
proof -
  have "modbus_new_tcp libmodbus_macros ctx_example ''127.0.0.1'' 502 [] world_example
     = Some (Some 0, heap_example, world_example)"
    by (simp add: new_tcp_result heap_example_def ctx_example_def)
  moreover have "map_option fst (build_requests libmodbus_macros heap_example
         [(0, 3, 0x6B, 3, zero_buf), (0, 3, 0x6B, 3, zero_buf)])
     = Some [(0, 1), (0, 2)]"
    by (simp add: modbus_tcp_build_request_basis_def deref_def heap_example_def block_t_id_def
          block_set_t_id_def UINT16_MAX_def modbus_tcp_prepare_response_tid_def Let_def)
  ultimately show ?thesis by simp
qed

text \<open>
  C1, amended. Let the context \<open>p\<close> have its transport parameters in the block \<open>bp\<close>
  with the counter at \<open>tp\<close>, and let the request builder be called any number of
  times, with any arguments, on \<open>p\<close> and on any other contexts whose blocks are not
  \<open>bp\<close>, in any order. Every call succeeds, and the transaction ids read back from
  the headers built on \<open>p\<close> are, in call order, \<open>(tp + k) mod 65536\<close> for
  \<open>k = 1, 2, 3, \<dots>\<close>, whatever calls were made on the other contexts in between: the
  counter wraps from 65535 to 0. A context made by \<open>modbus_new_tcp\<close> or by
  \<open>modbus_new_tcp_pi\<close> has the counter at 0, so its ids are 1, 2, \<dots>, 65535, 0, 1, \<dots>
  A clone made by \<open>modbus_clone_tcp\<close> has a fresh block of its own, which is the block
  of no context that was there before, with the counter at the value the original
  has when it is cloned; the parameters of the contexts that were there are as before.
\<close>

theorem transaction_ids_follow_counter:
  "(params_of h p = Some (bp, tp)
      \<and> (\<forall>call \<in> set sched. \<exists>b t. params_of h (fst call) = Some (b, t)
                                   \<and> (fst call \<noteq> p \<longrightarrow> b \<noteq> bp))
     \<longrightarrow> (\<exists>ids h'. build_requests K h sched = Some (ids, h')
           \<and> ids_of p ids
               = map (\<lambda>k. (uint tp + int k) mod 65536)
                   [1..<Suc (length (filter (\<lambda>call. fst call = p) sched))]))
   \<and> (modbus_new_tcp K init ip_arg port_arg h0 w = Some (Some p0, h1, w1)
     \<longrightarrow> params_of h1 p0 = Some (Suc p0, 0))
   \<and> (modbus_new_tcp_pi K init node_arg service_arg h0 w = Some (Some p0, h1, w1)
     \<longrightarrow> params_of h1 p0 = Some (Suc p0, 0))
   \<and> (params_of h p = Some (bp, tp)
     \<longrightarrow> (\<exists>h2. modbus_clone_tcp h p = Some (length h, h2)
           \<and> params_of h2 (length h) = Some (Suc (length h), tp)
           \<and> Suc (length h) \<noteq> bp
           \<and> (\<forall>c b t. params_of h c = Some (b, t)
                \<longrightarrow> params_of h2 c = Some (b, t) \<and> b \<noteq> Suc (length h))))"
proof (intro conjI impI)
  assume a: "params_of h p = Some (bp, tp)
      \<and> (\<forall>call \<in> set sched. \<exists>b t. params_of h (fst call) = Some (b, t)
                                   \<and> (fst call \<noteq> p \<longrightarrow> b \<noteq> bp))"
  then have p: "params_of h p = Some (bp, tp)"
    and others: "\<forall>call \<in> set sched. \<exists>b t. params_of h (fst call) = Some (b, t)
                                   \<and> (fst call \<noteq> p \<longrightarrow> b \<noteq> bp)"
    by simp_all
  from build_requests_one_of_many [OF p others, of K]
  show "\<exists>ids h'. build_requests K h sched = Some (ids, h')
           \<and> ids_of p ids
               = map (\<lambda>k. (uint tp + int k) mod 65536)
                   [1..<Suc (length (filter (\<lambda>call. fst call = p) sched))]"
    by (simp only: ids_from_counter)
next
  assume "modbus_new_tcp K init ip_arg port_arg h0 w = Some (Some p0, h1, w1)"
  then show "params_of h1 p0 = Some (Suc p0, 0)"
    by (auto simp: new_tcp_result params_of_def deref_def nth_append block_t_id_def
             split: if_splits)
next
  assume "modbus_new_tcp_pi K init node_arg service_arg h0 w = Some (Some p0, h1, w1)"
  then show "params_of h1 p0 = Some (Suc p0, 0)"
    by (auto simp: new_tcp_pi_result params_of_def deref_def nth_append block_t_id_def
             split: if_splits)
next
  assume "params_of h p = Some (bp, tp)"
  then show "\<exists>h2. modbus_clone_tcp h p = Some (length h, h2)
           \<and> params_of h2 (length h) = Some (Suc (length h), tp)
           \<and> Suc (length h) \<noteq> bp
           \<and> (\<forall>c b t. params_of h c = Some (b, t)
                \<longrightarrow> params_of h2 c = Some (b, t) \<and> b \<noteq> Suc (length h))"
    by (rule clone_tcp_params)
qed

theorem transaction_ids_follow_counter_witness:
  "params_of heap_example 0 = Some (1, 0)
   \<and> params_of heap_pi_example 0 = Some (1, 0)
   \<and> (\<exists>ids h'. build_requests libmodbus_macros heap_example
          [(0, 3, 0x6B, 3, zero_buf), (0, 3, 0x6B, 3, zero_buf), (0, 3, 0x6B, 3, zero_buf)]
          = Some (ids, h')
        \<and> ids_of 0 ids = [1, 2, 3])
   \<and> (\<exists>h2. modbus_clone_tcp heap_built_example 0 = Some (2, h2)
        \<and> params_of h2 2 = Some (3, 1) \<and> params_of h2 0 = Some (1, 1))
   \<and> (\<exists>ids h'. build_requests libmodbus_macros heap_built_cloned_example
          [(2, 3, 0, 1, zero_buf), (2, 3, 0, 1, zero_buf), (0, 3, 0x6B, 3, zero_buf)]
          = Some (ids, h')
        \<and> ids_of 2 ids = [2, 3] \<and> ids_of 0 ids = [2])"
proof -
  let ?three = "[(0, 3, 0x6B, 3, zero_buf), (0, 3, 0x6B, 3, zero_buf), (0::nat, 3::int, 0x6B::int, 3::int, zero_buf)]"
  let ?mixed = "[(2, 3, 0, 1, zero_buf), (2, 3, 0, 1, zero_buf), (0::nat, 3::int, 0x6B::int, 3::int, zero_buf)]"
  note rule = transaction_ids_follow_counter
  have new: "modbus_new_tcp libmodbus_macros ctx_example ''127.0.0.1'' 502 [] world_example
     = Some (Some 0, heap_example, world_example)"
    by (simp add: new_tcp_result heap_example_def ctx_example_def)
  have new_pi: "modbus_new_tcp_pi libmodbus_macros ctx_example ''localhost'' ''502'' [] world_example
     = Some (Some 0, heap_pi_example, world_example)"
    by (simp add: new_tcp_pi_result heap_pi_example_def ctx_pi_example_def ctx_example_def
          libmodbus_macros_def)
  have upts: "[1..<Suc 3] = [1, 2, 3]" "[1..<Suc 2] = [1, 2]" "[1..<Suc 1] = [1]"
    by (simp_all add: upt_rec)
  have p0: "params_of heap_example 0 = Some (1, 0)"
    using rule [THEN conjunct2, THEN conjunct1, THEN mp, OF new] by simp
  have p0_pi: "params_of heap_pi_example 0 = Some (1, 0)"
    using rule [THEN conjunct2, THEN conjunct2, THEN conjunct1, THEN mp, OF new_pi] by simp
  have "params_of heap_example 0 = Some (1, 0)
      \<and> (\<forall>call \<in> set ?three. \<exists>b t. params_of heap_example (fst call) = Some (b, t)
                                   \<and> (fst call \<noteq> 0 \<longrightarrow> b \<noteq> 1))"
    using p0 by simp
  from rule [where K = libmodbus_macros, THEN conjunct1, THEN mp, OF this]
  obtain ids1 ha where "build_requests libmodbus_macros heap_example ?three = Some (ids1, ha)"
    and "ids_of 0 ids1 = map (\<lambda>k. (uint (0 :: 16 word) + int k) mod 65536)
                          [1..<Suc (length (filter (\<lambda>call. fst call = 0) ?three))]"
    by blast
  then have first: "\<exists>ids h'. build_requests libmodbus_macros heap_example ?three = Some (ids, h')
        \<and> ids_of 0 ids = [1, 2, 3]"
    by (simp add: upts)
  have built: "params_of heap_built_example 0 = Some (1, 1)"
    by (simp add: params_of_def deref_def heap_built_example_def block_t_id_def)
  have len: "length heap_built_example = 2"
    by (simp add: heap_built_example_def)
  from rule [THEN conjunct2, THEN conjunct2, THEN conjunct2, THEN mp, OF built]
  obtain h2 where "modbus_clone_tcp heap_built_example 0 = Some (length heap_built_example, h2)"
    "params_of h2 (length heap_built_example) = Some (Suc (length heap_built_example), 1)"
    "\<forall>c b t. params_of heap_built_example c = Some (b, t)
        \<longrightarrow> params_of h2 c = Some (b, t) \<and> b \<noteq> Suc (length heap_built_example)"
    by blast
  with built have cloned: "\<exists>h2. modbus_clone_tcp heap_built_example 0 = Some (2, h2)
        \<and> params_of h2 2 = Some (3, 1) \<and> params_of h2 0 = Some (1, 1)"
    by (auto simp: len numeral_3_eq_3)
  have orig: "params_of heap_built_cloned_example 0 = Some (1, 1)"
    and copy: "params_of heap_built_cloned_example 2 = Some (3, 1)"
    by (simp_all add: params_of_def deref_def heap_built_cloned_example_def heap_built_example_def
          block_t_id_def)
  have "params_of heap_built_cloned_example 2 = Some (3, 1)
      \<and> (\<forall>call \<in> set ?mixed. \<exists>b t. params_of heap_built_cloned_example (fst call) = Some (b, t)
                                   \<and> (fst call \<noteq> 2 \<longrightarrow> b \<noteq> 3))"
    using orig copy by simp
  from rule [where K = libmodbus_macros, THEN conjunct1, THEN mp, OF this]
  obtain ids hb where run: "build_requests libmodbus_macros heap_built_cloned_example ?mixed = Some (ids, hb)"
    and "ids_of 2 ids = map (\<lambda>k. (uint (1 :: 16 word) + int k) mod 65536)
                          [1..<Suc (length (filter (\<lambda>call. fst call = 2) ?mixed))]"
    by blast
  then have on_clone: "ids_of 2 ids = [2, 3]"
    by (simp add: upts)
  have "params_of heap_built_cloned_example 0 = Some (1, 1)
      \<and> (\<forall>call \<in> set ?mixed. \<exists>b t. params_of heap_built_cloned_example (fst call) = Some (b, t)
                                   \<and> (fst call \<noteq> 0 \<longrightarrow> b \<noteq> 1))"
    using orig copy by simp
  from rule [where K = libmodbus_macros, THEN conjunct1, THEN mp, OF this]
  obtain ids' hc where "build_requests libmodbus_macros heap_built_cloned_example ?mixed = Some (ids', hc)"
    and "ids_of 0 ids' = map (\<lambda>k. (uint (1 :: 16 word) + int k) mod 65536)
                          [1..<Suc (length (filter (\<lambda>call. fst call = 0) ?mixed))]"
    by blast
  with run have on_orig: "ids_of 0 ids = [2]"
    by (simp add: upts)
  from p0 p0_pi first cloned run on_clone on_orig show ?thesis
    by blast
qed

end
